theory Spec2Isabelle
  imports Main "HOL-Library.Char_ord" "HOL-Library.List_Lexorder" "HOL-Library.Sublist"
begin

section \<open>Values, exceptions and the world of rpdk.core.project\<close>

text \<open>
  JSON documents as Python holds them after \<^verbatim>\<open>json.load\<close>: a dict is a mutable object, so
  it lives in a store and a value only refers to it (\<open>JRef\<close>); its entries keep their
  insertion order. Lists are never mutated by the module, so they are kept by value.
  Numbers are Python's unbounded integers.
\<close>

datatype jval = JNull | JBool bool | JNum int | JStr string | JArr "jval list" | JRef nat

type_synonym dict = "(string \<times> jval) list"

type_synonym heap = "dict list"

text \<open>
  Exceptions are values. \<open>DownstreamError msg cause\<close> is
  \<^verbatim>\<open>raise DownstreamError(msg) from cause\<close>: the second field is the explicit
  \<^verbatim>\<open>__cause__\<close>.
\<close>

datatype exn =
    KeyError
  | ValueError
  | IndexError
  | TypeError
  | AttributeError
  | RecursionError
  | RuntimeError
  | RefResolutionError
  | FileNotFoundError string
  | FileExistsError string
  | ClientError string
  | WaiterError string
  | OtherError string
  | DownstreamError string exn

datatype level = DEBUG | INFO | WARNING | ERROR | CRITICAL

type_synonym response = "(string \<times> string) list"

datatype log_arg = S string | R response | E exn

text \<open>A log record keeps the format string and its arguments, as \<^verbatim>\<open>logging\<close> does.\<close>

type_synonym log_entry = "level \<times> string \<times> log_arg list"

datatype contents = Text string | Archive "(string \<times> contents) list"

record register_args =
  Type :: string
  TypeName :: string
  SchemaHandlerPackage :: string
  ClientRequestToken :: string
  LogRoleArn :: string
  LogGroupName :: string
  ExecutionRoleArn :: "string option"

datatype remote_call =
    CreateSdkSession "string option"
  | CreateOrUpdateRole string string
  | Upload string contents
  | GetLogDeliveryRoleArn
  | RegisterType register_args
  | WaitTypeRegistrationComplete string
  | DescribeTypeRegistration string
  | SetTypeDefaultVersion string

text \<open>
  Everything the module can change: the files on disk (by path), the log, the store of
  dict objects, and the calls made to remote services, in order.
\<close>

record world =
  files :: "string \<rightharpoonup> contents"
  logged :: "log_entry list"
  store :: heap
  calls :: "remote_call list"

text \<open>
  A method either returns a value or raises; the world it leaves behind is kept in both
  cases. A method keeps its name, without the leading underscore of a private one.
\<close>

type_synonym 'a outcome = "(exn + 'a) \<times> world"

definition LOG :: "level \<Rightarrow> string \<Rightarrow> log_arg list \<Rightarrow> world \<Rightarrow> world" where
  "LOG lv fmt args w = w\<lparr>logged := logged w @ [(lv, fmt, args)]\<rparr>"

subsection \<open>Strings and paths\<close>

definition lower_char :: "char \<Rightarrow> char" where
  "lower_char c =
     (case map_of (zip ''ABCDEFGHIJKLMNOPQRSTUVWXYZ'' ''abcdefghijklmnopqrstuvwxyz'') c of
        None \<Rightarrow> c
      | Some l \<Rightarrow> l)"

text \<open>\<^verbatim>\<open>str.lower\<close> on ASCII text; other bytes are left as they are.\<close>

definition lower :: "string \<Rightarrow> string" where
  "lower s = map lower_char s"

text \<open>\<^verbatim>\<open>sep.join(parts)\<close>\<close>

fun join :: "string \<Rightarrow> string list \<Rightarrow> string" where
  "join sep [] = []"
| "join sep [x] = x"
| "join sep (x # y # ys) = x @ sep @ join sep (y # ys)"

text \<open>\<^verbatim>\<open>directory / name\<close> of pathlib, on plain relative names (no normalisation).\<close>

definition path_join :: "string \<Rightarrow> string \<Rightarrow> string" where
  "path_join d name = d @ ''/'' @ name"

definition SETTINGS_FILENAME :: string where
  "SETTINGS_FILENAME = ''.rpdk-config''"

definition SCHEMA_UPLOAD_FILENAME :: string where
  "SCHEMA_UPLOAD_FILENAME = ''schema.json''"

definition OVERRIDES_FILENAME :: string where
  "OVERRIDES_FILENAME = ''overrides.json''"

definition ROLE_TEMPLATE_FILENAME :: string where
  "ROLE_TEMPLATE_FILENAME = ''resource-role.yaml''"

definition DEFAULT_ROLE_TIMEOUT_MINUTES :: int where
  "DEFAULT_ROLE_TIMEOUT_MINUTES = 120"

definition MIN_ROLE_TIMEOUT_SECONDS :: int where
  "MIN_ROLE_TIMEOUT_SECONDS = 3600"

definition MAX_ROLE_TIMEOUT_SECONDS :: int where
  "MAX_ROLE_TIMEOUT_SECONDS = 43200"

subsection \<open>The project\<close>

text \<open>
  A handler of the schema: \<open>permissions\<close> and \<open>timeoutInMinutes\<close> are both optional keys
  of the handler's dict.
\<close>

record handler =
  permissions :: "string list option"
  timeoutInMinutes :: "int option"

text \<open>
  The templates of the jinja2 environment are external: each is a function of the
  arguments handed to \<^verbatim>\<open>render\<close> (and of the store, for a schema argument).
\<close>

record templates =
  resource_role_yml :: "string \<Rightarrow> string list \<Rightarrow> string \<Rightarrow> int \<Rightarrow> string"
  docs_subproperty_md :: "heap \<Rightarrow> string \<Rightarrow> string \<Rightarrow> jval \<Rightarrow> string"
  docs_readme_md :: "heap \<Rightarrow> string \<Rightarrow> jval \<Rightarrow> string option \<Rightarrow> (string \<times> jval) list \<Rightarrow> string"

text \<open>
  The fields of \<open>Project\<close> the modelled methods read. \<open>schema\<close> is the dict object of
  \<^verbatim>\<open>self.schema\<close> in the store (\<open>None\<close> before it is loaded); \<open>handlers\<close> is that
  schema's \<^verbatim>\<open>"handlers"\<close> entry as \<open>generate\<close> and \<open>_upload\<close> read it: \<open>None\<close> when
  the key is absent, else the handlers by operation name, in the dict's order.
\<close>

record project =
  overwrite_enabled :: bool
  root :: string
  type_info :: "string list option"
  schema :: "nat option"
  handlers :: "(string \<times> handler) list option"
  env :: templates

text \<open>The properties \<open>type_name\<close> and \<open>hypenated_name\<close>; joining \<open>None\<close> raises TypeError.\<close>

definition type_name :: "project \<Rightarrow> exn + string" where
  "type_name p = (case type_info p of None \<Rightarrow> Inl TypeError | Some ti \<Rightarrow> Inr (join ''::'' ti))"

definition hypenated_name :: "project \<Rightarrow> exn + string" where
  "hypenated_name p =
     (case type_info p of None \<Rightarrow> Inl TypeError | Some ti \<Rightarrow> Inr (lower (join ''-'' ti)))"

definition schema_path :: "project \<Rightarrow> exn + string" where
  "schema_path p =
     (case hypenated_name p of
        Inl e \<Rightarrow> Inl e
      | Inr n \<Rightarrow> Inr (path_join (root p) (n @ ''.json'')))"

definition settings_path :: "project \<Rightarrow> string" where
  "settings_path p = path_join (root p) SETTINGS_FILENAME"

definition overrides_path :: "project \<Rightarrow> string" where
  "overrides_path p = path_join (root p) OVERRIDES_FILENAME"

subsection \<open>overwrite and safewrite\<close>

text \<open>
  \<open>contents\<close> is the text that ends up in the file, whether the caller passed a string
  or a callable that writes it. Opening with mode \<^verbatim>\<open>"w"\<close> replaces the file; opening
  with mode \<^verbatim>\<open>"x"\<close> raises FileExistsError when the path exists.
\<close>

definition overwrite :: "string \<Rightarrow> string \<Rightarrow> world \<Rightarrow> world" where
  "overwrite path cont w =
     (let w1 = LOG DEBUG (''Overwriting '%s'' @ [CHR 0x27]) [S path] w
      in w1\<lparr>files := (files w1)(path \<mapsto> Text cont)\<rparr>)"

text \<open>The \<^verbatim>\<open>with path.open("x")\<close> block of \<open>safewrite\<close>.\<close>

definition write_exclusive :: "string \<Rightarrow> string \<Rightarrow> world \<Rightarrow> unit outcome" where
  "write_exclusive path cont w =
     (case files w path of
        None \<Rightarrow> (Inr (), w\<lparr>files := (files w)(path \<mapsto> Text cont)\<rparr>)
      | Some old \<Rightarrow> (Inl (FileExistsError path), w))"

definition safewrite :: "project \<Rightarrow> string \<Rightarrow> string \<Rightarrow> world \<Rightarrow> unit outcome" where
  "safewrite p path cont w =
     (if overwrite_enabled p then (Inr (), overwrite path cont w)
      else (case write_exclusive path cont w of
              (Inl (FileExistsError f), w1) \<Rightarrow>
                (Inr (), LOG WARNING (''File already exists, not overwriting '%s'' @ [CHR 0x27]) [S path] w1)
            | (Inl e, w1) \<Rightarrow> (Inl e, w1)
            | (Inr u, w1) \<Rightarrow> (Inr u, w1)))"

section \<open>The role template: generate\<close>

text \<open>
  The set comprehension over every handler's permissions, without the empty string,
  as \<^verbatim>\<open>sorted\<close> lists it. Python compares strings by code point, \<open>char list\<close> by byte.
\<close>

definition role_actions_raw :: "(string \<times> handler) list \<Rightarrow> string list" where
  "role_actions_raw hs =
     concat (map (\<lambda>(operation, h). case permissions h of None \<Rightarrow> [] | Some ps \<Rightarrow> ps) hs)"

definition max_handler_timeout :: "(string \<times> handler) list \<Rightarrow> int" where
  "max_handler_timeout hs =
     (case map (\<lambda>(operation, h).
                  case timeoutInMinutes h of None \<Rightarrow> DEFAULT_ROLE_TIMEOUT_MINUTES | Some t \<Rightarrow> t) hs of
        [] \<Rightarrow> DEFAULT_ROLE_TIMEOUT_MINUTES
      | t # ts \<Rightarrow> fold max ts t)"

definition role_session_timeout :: "(string \<times> handler) list \<Rightarrow> int" where
  "role_session_timeout hs =
     min MAX_ROLE_TIMEOUT_SECONDS (max MIN_ROLE_TIMEOUT_SECONDS (70 * max_handler_timeout hs))"

definition role_actions :: "(string \<times> handler) list \<Rightarrow> string list" where
  "role_actions hs =
     (let actions = filter (\<lambda>a. a \<noteq> '''') (remdups (role_actions_raw hs))
      in if actions = [] then [''*''] else sort actions)"

definition role_permission :: "(string \<times> handler) list \<Rightarrow> string" where
  "role_permission hs =
     (let actions = filter (\<lambda>a. a \<noteq> '''') (remdups (role_actions_raw hs))
      in if actions = [] then ''Deny'' else ''Allow'')"

text \<open>
  Lines 251 to 292 of \<open>generate\<close>: the role template is written only under
  \<^verbatim>\<open>if "handlers" in self.schema\<close>.
\<close>

definition generate_role_template :: "project \<Rightarrow> world \<Rightarrow> unit outcome" where
  "generate_role_template p w =
     (case handlers p of
        None \<Rightarrow> (Inr (), w)
      | Some hs \<Rightarrow>
          (let path = path_join (root p) ROLE_TEMPLATE_FILENAME;
               w1 = LOG DEBUG ''Writing Resource Role CloudFormation template: %s'' [S path] w
           in case hypenated_name p of
                Inl e \<Rightarrow> (Inl e, w1)
              | Inr name \<Rightarrow>
                  (Inr (),
                   overwrite path
                     (resource_role_yml (env p) name (role_actions hs) (role_permission hs)
                        (role_session_timeout hs)) w1)))"

text \<open>\<open>plugin_generate\<close> is the language plugin's \<open>generate\<close>, an external collaborator.\<close>

definition generate :: "(project \<Rightarrow> world \<Rightarrow> 'r outcome) \<Rightarrow> project \<Rightarrow> world \<Rightarrow> 'r outcome" where
  "generate plugin_generate p w =
     (case generate_role_template p w of
        (Inl e, w1) \<Rightarrow> (Inl e, w1)
      | (Inr u, w1) \<Rightarrow> plugin_generate p w1)"

section \<open>JSON pointers and the primary identifier\<close>

text \<open>\<^verbatim>\<open>s.split(c)\<close> for a one-character separator: always at least one segment.\<close>

fun split_on :: "char \<Rightarrow> string \<Rightarrow> string list" where
  "split_on c [] = [[]]"
| "split_on c (x # xs) =
     (if x = c then [] # split_on c xs
      else (case split_on c xs of [] \<Rightarrow> [[x]] | seg # segs \<Rightarrow> (x # seg) # segs))"

text \<open>\<^verbatim>\<open>s.replace(a + b, r)\<close> for a two-character pattern, scanning left to right.\<close>

fun replace2 :: "char \<Rightarrow> char \<Rightarrow> string \<Rightarrow> string \<Rightarrow> string" where
  "replace2 a b r (x # y # s) =
     (if x = a \<and> y = b then r @ replace2 a b r s else x # replace2 a b r (y # s))"
| "replace2 a b r s = s"

text \<open>\<^verbatim>\<open>s.replace(a, r)\<close> for a one-character pattern.\<close>

definition replace1 :: "char \<Rightarrow> string \<Rightarrow> string \<Rightarrow> string" where
  "replace1 a r s = concat (map (\<lambda>x. if x = a then r else [x]) s)"

text \<open>
  Modelled from the spec: \<open>rpdk.core.jsonutils.pointer\<close> (\<open>fragment_encode\<close>,
  \<open>fragment_decode\<close> and the escaping of a segment) is not among the sources. Section 4.2
  of the specification: a pointer is the prefix followed by the segments, each introduced by
  a slash; a segment's \<open>~\<close> and \<open>/\<close> are escaped by the standard JSON-Pointer rules
  (\<open>~0\<close>, \<open>~1\<close>) on encoding and unescaped on decoding.
\<close>

definition part_encode :: "string \<Rightarrow> string" where
  "part_encode part = replace1 (CHR ''/'') ''~1'' (replace1 (CHR ''~'') ''~0'' part)"

definition part_decode :: "string \<Rightarrow> string" where
  "part_decode part = replace2 (CHR ''~'') (CHR ''0'') ''~'' (replace2 (CHR ''~'') (CHR ''1'') ''/'' part)"

text \<open>
  Modelled from the spec: \<open>fragment_encode\<close> of \<open>rpdk.core.jsonutils.pointer\<close>, which is
  not among the sources (section 4.2 of the specification).
\<close>

definition fragment_encode :: "string list \<Rightarrow> string \<Rightarrow> string" where
  "fragment_encode parts pfx = join ''/'' (pfx # map part_encode parts)"

text \<open>
  Modelled from the spec: \<open>fragment_decode\<close> of \<open>rpdk.core.jsonutils.pointer\<close>, which is
  not among the sources (section 4.2 of the specification): the segments after the prefix,
  unescaped; a decoding error (ValueError) when the pointer does not begin with the prefix.
\<close>

definition fragment_decode :: "string \<Rightarrow> string \<Rightarrow> exn + string list" where
  "fragment_decode pointer pfx =
     (case split_on (CHR ''/'') pointer of
        [] \<Rightarrow> Inl ValueError
      | seg # segs \<Rightarrow> if seg \<noteq> pfx then Inl ValueError else Inr (map part_decode segs))"

text \<open>\<^verbatim>\<open>len(v)\<close>: defined on strings, lists and dicts, a TypeError otherwise.\<close>

fun py_len :: "heap \<Rightarrow> jval \<Rightarrow> exn + nat" where
  "py_len h (JStr s) = Inr (length s)"
| "py_len h (JArr xs) = Inr (length xs)"
| "py_len h (JRef a) = Inr (length (h ! a))"
| "py_len h v = Inl TypeError"

text \<open>
  \<^verbatim>\<open>v[0]\<close> on a value of length one: the element of a list, the character of a string;
  a dict of a JSON document has string keys only, so the integer key is missing.
\<close>

fun py_first :: "jval \<Rightarrow> exn + jval" where
  "py_first (JArr (x # xs)) = Inr x"
| "py_first (JArr []) = Inl IndexError"
| "py_first (JStr (c # s)) = Inr (JStr [c])"
| "py_first (JStr []) = Inl IndexError"
| "py_first (JRef a) = Inl KeyError"
| "py_first v = Inl TypeError"

text \<open>
  The body of the \<^verbatim>\<open>try\<close> of \<open>_get_docs_primary_identifier\<close>: \<open>Inr (Some x)\<close> is
  \<^verbatim>\<open>return x\<close>, \<open>Inr None\<close> is leaving the block without returning. Calling
  \<open>fragment_decode\<close> on a value that is not a string raises AttributeError (it has no
  \<^verbatim>\<open>split\<close>).
\<close>

definition primary_identifier_try :: "dict \<Rightarrow> world \<Rightarrow> string option outcome" where
  "primary_identifier_try docs_schema w =
     (case map_of docs_schema ''primaryIdentifier'' of
        None \<Rightarrow> (Inl KeyError, w)
      | Some primary_id \<Rightarrow>
          (case py_len (store w) primary_id of
             Inl e \<Rightarrow> (Inl e, w)
           | Inr n \<Rightarrow>
               if n = 1 then
                 (case py_first primary_id of
                    Inl e \<Rightarrow> (Inl e, w)
                  | Inr (JStr pointer) \<Rightarrow>
                      (case fragment_decode pointer '''' of
                         Inl e \<Rightarrow> (Inl e, w)
                       | Inr path \<Rightarrow>
                           (let primary_id_path = tl path
                            in if length primary_id_path = 1 then (Inr (Some (hd primary_id_path)), w)
                               else (Inr None, LOG WARNING ''Nested primaryIdentifier found'' [] w)))
                  | Inr other \<Rightarrow> (Inl AttributeError, w))
               else (Inr None, w)))"

definition get_docs_primary_identifier :: "dict \<Rightarrow> world \<Rightarrow> string option outcome" where
  "get_docs_primary_identifier docs_schema w =
     (case primary_identifier_try docs_schema w of
        (Inl KeyError, w1) \<Rightarrow> (Inr None, w1)
      | (Inl ValueError, w1) \<Rightarrow> (Inr None, w1)
      | (Inl e, w1) \<Rightarrow> (Inl e, w1)
      | (Inr (Some x), w1) \<Rightarrow> (Inr (Some x), w1)
      | (Inr None, w1) \<Rightarrow> (Inr None, w1))"

section \<open>Submission\<close>

text \<open>
  The remote services, as scripted answers: the SDK session, the \<open>Uploader\<close>, the
  CloudFormation client with its waiter, and \<open>uuid4\<close>. \<open>Inl\<close> is the exception the call
  raises.
\<close>

record remote =
  sdk_session :: "string option \<Rightarrow> exn + string"
  uploader_create_or_update_role :: "string \<Rightarrow> string \<Rightarrow> exn + string"
  uploader_upload :: "string \<Rightarrow> contents \<Rightarrow> exn + string"
  uploader_get_log_delivery_role_arn :: "exn + string"
  uuid4 :: string
  cfn_register_type :: "register_args \<Rightarrow> exn + response"
  cfn_wait :: "string \<Rightarrow> exn option"
  cfn_describe_type_registration :: "string \<Rightarrow> exn + response"
  cfn_set_type_default_version :: "string \<Rightarrow> exn option"

definition call :: "remote_call \<Rightarrow> world \<Rightarrow> world" where
  "call c w = w\<lparr>calls := calls w @ [c]\<rparr>"

text \<open>Truth value of an optional string argument: \<open>None\<close> and the empty string are false.\<close>

definition truthy_arg :: "string option \<Rightarrow> bool" where
  "truthy_arg a = (case a of None \<Rightarrow> False | Some s \<Rightarrow> s \<noteq> [])"

text \<open>
  \<open>_wait_for_registration\<close>. \<^verbatim>\<open>LOG.warning(response)\<close> is recorded as the format
  \<open>%s\<close> with the response as its argument, and \<^verbatim>\<open>exc_info=e\<close> as the argument \<open>E e\<close>.
\<close>

definition wait_for_registration :: "remote \<Rightarrow> string \<Rightarrow> bool \<Rightarrow> world \<Rightarrow> unit outcome" where
  "wait_for_registration cfn registration_token set_default w =
     (let w1 = LOG WARNING
                 (''Successfully submitted type. Waiting for registration with token '%s'' @ [CHR 0x27]
                   @ '' to complete.'') [S registration_token] w;
          w2 = call (WaitTypeRegistrationComplete registration_token) w1
      in case cfn_wait cfn registration_token of
           Some (WaiterError m) \<Rightarrow>
             (let w3 = LOG WARNING
                         (''Failed to register the type with registration token '%s'' @ [CHR 0x27] @ ''.'')
                         [S registration_token] w2;
                  w4 = call (DescribeTypeRegistration registration_token) w3
              in case cfn_describe_type_registration cfn registration_token of
                   Inl (ClientError d) \<Rightarrow>
                     (Inl (DownstreamError ''Error describing type registration'' (ClientError d)),
                      LOG DEBUG ''Describing type registration resulted in unknown ClientError''
                        [E (WaiterError m)] w4)
                 | Inl e \<Rightarrow> (Inl e, w4)
                 | Inr response \<Rightarrow>
                     (Inl (DownstreamError ''Type registration error'' (WaiterError m)),
                      LOG WARNING
                        (''Please see response for additional information: '%s'' @ [CHR 0x27])
                        [R response] w4))
         | Some e \<Rightarrow> (Inl e, w2)
         | None \<Rightarrow>
             (let w3 = LOG WARNING ''Registration complete.'' [] w2;
                  w4 = call (DescribeTypeRegistration registration_token) w3
              in case cfn_describe_type_registration cfn registration_token of
                   Inl e \<Rightarrow> (Inl e, w4)
                 | Inr response \<Rightarrow>
                     (let w5 = LOG WARNING ''%s'' [R response] w4
                      in if set_default then
                           (case map_of response ''TypeVersionArn'' of
                              None \<Rightarrow> (Inl KeyError, w5)
                            | Some arn \<Rightarrow>
                                (let w6 = call (SetTypeDefaultVersion arn) w5
                                 in case cfn_set_type_default_version cfn arn of
                                      Some (ClientError d) \<Rightarrow>
                                        (Inl (DownstreamError ''Error setting default version'' (ClientError d)),
                                         LOG DEBUG ''Setting default version resulted in unknown ClientError''
                                           [E (ClientError d)] w6)
                                    | Some e \<Rightarrow> (Inl e, w6)
                                    | None \<Rightarrow>
                                        (Inr (), LOG WARNING (''Set default version to '%s'') [S arn] w6)))
                         else (Inr (), w5))))"

text \<open>
  The execution-role step of \<open>_upload\<close>: taken under
  \<^verbatim>\<open>use_role and not role_arn and "handlers" in self.schema\<close>; it returns the role to
  register with.
\<close>

definition provision_role ::
  "project \<Rightarrow> remote \<Rightarrow> string option \<Rightarrow> bool \<Rightarrow> world \<Rightarrow> string option outcome" where
  "provision_role p r role_arn use_role w =
     (if use_role \<and> \<not> truthy_arg role_arn \<and> handlers p \<noteq> None then
        (let w1 = LOG DEBUG ''Creating execution role for provider to use'' [] w
         in case hypenated_name p of
              Inl e \<Rightarrow> (Inl e, w1)
            | Inr name \<Rightarrow>
                (let template_path = path_join (root p) ROLE_TEMPLATE_FILENAME;
                     w2 = call (CreateOrUpdateRole template_path name) w1
                 in case uploader_create_or_update_role r template_path name of
                      Inl e \<Rightarrow> (Inl e, w2)
                    | Inr arn \<Rightarrow> (Inr (Some arn), w2)))
      else (Inr role_arn, w))"

definition register ::
  "project \<Rightarrow> remote \<Rightarrow> string \<Rightarrow> string \<Rightarrow> string option \<Rightarrow> bool \<Rightarrow> bool \<Rightarrow> world \<Rightarrow> unit outcome" where
  "register p r s3_url log_delivery_role role_arn use_role set_default w =
     (case type_name p of
        Inl e \<Rightarrow> (Inl e, w)
      | Inr tn \<Rightarrow>
          (case hypenated_name p of
             Inl e \<Rightarrow> (Inl e, w)
           | Inr name \<Rightarrow>
               (let kwargs = \<lparr>Type = ''RESOURCE'', TypeName = tn, SchemaHandlerPackage = s3_url,
                               ClientRequestToken = uuid4 r, LogRoleArn = log_delivery_role,
                               LogGroupName = name @ ''-logs'',
                               ExecutionRoleArn = (if truthy_arg role_arn \<and> use_role then role_arn else None)\<rparr>;
                    w1 = call (RegisterType kwargs) w
                in case cfn_register_type r kwargs of
                     Inl (ClientError d) \<Rightarrow>
                       (Inl (DownstreamError ''Unknown CloudFormation error'' (ClientError d)),
                        LOG DEBUG ''Registering type resulted in unknown ClientError'' [E (ClientError d)] w1)
                   | Inl e \<Rightarrow> (Inl e, w1)
                   | Inr response \<Rightarrow>
                       (case map_of response ''RegistrationToken'' of
                          None \<Rightarrow> (Inl KeyError, w1)
                        | Some token \<Rightarrow> wait_for_registration r token set_default w1))))"

text \<open>\<open>_upload\<close>; the endpoint URL only configures the client.\<close>

definition upload ::
  "project \<Rightarrow> remote \<Rightarrow> contents \<Rightarrow> string option \<Rightarrow> string option \<Rightarrow> string option \<Rightarrow> bool \<Rightarrow> bool
     \<Rightarrow> world \<Rightarrow> unit outcome" where
  "upload p r fileobj endpoint_url region_name role_arn use_role set_default w =
     (let w1 = LOG DEBUG ''Packaging complete, uploading...'' [] w;
          w2 = call (CreateSdkSession region_name) w1
      in case sdk_session r region_name of
           Inl e \<Rightarrow> (Inl e, w2)
         | Inr region \<Rightarrow>
             (let w3 = LOG DEBUG (''Uploading to region '%s'' @ [CHR 0x27]) [S region] w2
              in case provision_role p r role_arn use_role w3 of
                   (Inl e, w4) \<Rightarrow> (Inl e, w4)
                 | (Inr role_arn', w4) \<Rightarrow>
                     (case hypenated_name p of
                        Inl e \<Rightarrow> (Inl e, w4)
                      | Inr name \<Rightarrow>
                          (let w5 = call (Upload name fileobj) w4
                           in case uploader_upload r name fileobj of
                                Inl e \<Rightarrow> (Inl e, w5)
                              | Inr s3_url \<Rightarrow>
                                  (let w6 = LOG DEBUG ''Got S3 URL: %s'' [S s3_url] w5;
                                       w7 = call GetLogDeliveryRoleArn w6
                                   in case uploader_get_log_delivery_role_arn r of
                                        Inl e \<Rightarrow> (Inl e, w7)
                                      | Inr log_delivery_role \<Rightarrow>
                                          register p r s3_url log_delivery_role role_arn' use_role set_default
                                            (LOG DEBUG ''Got Log Role: %s'' [S log_delivery_role] w7))))))"

text \<open>
  The archive written inside \<^verbatim>\<open>with zipfile.ZipFile(f, mode="w")\<close>: the entries added
  so far come back also when a step raises, since closing the archive keeps them.
  \<open>plugin_package\<close> is what the language plugin's \<open>package\<close> adds, or the exception it raises.
\<close>

definition write_archive ::
  "project \<Rightarrow> (exn + (string \<times> contents) list) \<Rightarrow> world
     \<Rightarrow> (exn + unit) \<times> (string \<times> contents) list \<times> world" where
  "write_archive p plugin_package w =
     (case schema_path p of
        Inl e \<Rightarrow> (Inl e, [], w)
      | Inr sp \<Rightarrow>
          (case files w sp of
             None \<Rightarrow> (Inl (FileNotFoundError sp), [], w)
           | Some schema_file \<Rightarrow>
               (case files w (settings_path p) of
                  None \<Rightarrow> (Inl (FileNotFoundError (settings_path p)), [(SCHEMA_UPLOAD_FILENAME, schema_file)], w)
                | Some settings_file \<Rightarrow>
                    (let entries = [(SCHEMA_UPLOAD_FILENAME, schema_file), (SETTINGS_FILENAME, settings_file)];
                         (entries', w1) =
                           (case files w (overrides_path p) of
                              None \<Rightarrow>
                                (entries,
                                 LOG DEBUG ''%s not found. Not writing to package.'' [S OVERRIDES_FILENAME] w)
                            | Some overrides_file \<Rightarrow>
                                (entries @ [(OVERRIDES_FILENAME, overrides_file)],
                                 LOG DEBUG ''%s found. Writing to package.'' [S OVERRIDES_FILENAME] w))
                     in case plugin_package of
                          Inl e \<Rightarrow> (Inl e, entries', w1)
                        | Inr added \<Rightarrow> (Inr (), entries' @ added, w1)))))"

text \<open>
  \<open>submit\<close>. On a dry run the archive file is \<open><hypenated_name>.zip\<close>, opened with mode
  \<^verbatim>\<open>"wb"\<close> (created or truncated) before anything is packaged; otherwise it is an
  anonymous temporary file, which has no path. The log keeps the path as it is, not
  resolved against the working directory.
\<close>

definition submit ::
  "project \<Rightarrow> (exn + (string \<times> contents) list) \<Rightarrow> remote \<Rightarrow> bool \<Rightarrow> string option \<Rightarrow> string option
     \<Rightarrow> string option \<Rightarrow> bool \<Rightarrow> bool \<Rightarrow> world \<Rightarrow> unit outcome" where
  "submit p plugin_package r dry_run endpoint_url region_name role_arn use_role set_default w =
     (if dry_run then
        (case hypenated_name p of
           Inl e \<Rightarrow> (Inl e, w)
         | Inr name \<Rightarrow>
             (let path = name @ ''.zip'';
                  w1 = w\<lparr>files := (files w)(path \<mapsto> Archive [])\<rparr>
              in case write_archive p plugin_package w1 of
                   (res, entries, w2) \<Rightarrow>
                     (let w3 = w2\<lparr>files := (files w2)(path \<mapsto> Archive entries)\<rparr>
                      in case res of
                           Inl e \<Rightarrow> (Inl e, w3)
                         | Inr u \<Rightarrow> (Inr (), LOG ERROR ''Dry run complete: %s'' [S path] w3))))
      else
        (case write_archive p plugin_package w of
           (Inl e, entries, w2) \<Rightarrow> (Inl e, w2)
         | (Inr u, entries, w2) \<Rightarrow>
             upload p r (Archive entries) endpoint_url region_name role_arn use_role set_default w2))"

section \<open>Documentation of the schema\<close>

subsection \<open>Dicts in the store\<close>

text \<open>\<^verbatim>\<open>d[k] = v\<close>: an existing key keeps its place, a new key goes last.\<close>

fun set_item :: "string \<Rightarrow> jval \<Rightarrow> dict \<Rightarrow> dict" where
  "set_item k v [] = [(k, v)]"
| "set_item k v ((k', v') # d) = (if k' = k then (k, v) # d else (k', v') # set_item k v d)"

definition store_set :: "nat \<Rightarrow> string \<Rightarrow> jval \<Rightarrow> world \<Rightarrow> world" where
  "store_set a k v w = w\<lparr>store := (store w)[a := set_item k v (store w ! a)]\<rparr>"

text \<open>Truth value of a JSON value, as \<^verbatim>\<open>or\<close> and \<^verbatim>\<open>not\<close> see it.\<close>

fun truthy :: "heap \<Rightarrow> jval \<Rightarrow> bool" where
  "truthy h JNull = False"
| "truthy h (JBool b) = b"
| "truthy h (JNum n) = (n \<noteq> 0)"
| "truthy h (JStr s) = (s \<noteq> [])"
| "truthy h (JArr xs) = (xs \<noteq> [])"
| "truthy h (JRef a) = (h ! a \<noteq> [])"

text \<open>
  \<^verbatim>\<open>s in v\<close> for a string \<open>s\<close>: an element of a list, a key of a dict, a substring of
  a string; a TypeError on anything else.
\<close>

fun py_contains :: "heap \<Rightarrow> jval \<Rightarrow> string \<Rightarrow> exn + bool" where
  "py_contains h (JArr xs) s = Inr (JStr s \<in> set xs)"
| "py_contains h (JRef a) s = Inr (map_of (h ! a) s \<noteq> None)"
| "py_contains h (JStr t) s = Inr (sublist s t)"
| "py_contains h v s = Inl TypeError"

text \<open>\<^verbatim>\<open>for x in v\<close>: the elements of a list, the characters of a string, the keys of a dict.\<close>

fun py_iter :: "heap \<Rightarrow> jval \<Rightarrow> exn + jval list" where
  "py_iter h (JArr xs) = Inr xs"
| "py_iter h (JStr s) = Inr (map (\<lambda>c. JStr [c]) s)"
| "py_iter h (JRef a) = Inr (map (\<lambda>(k, v). JStr k) (h ! a))"
| "py_iter h v = Inl TypeError"

definition nat_of_digits :: "string \<Rightarrow> nat option" where
  "nat_of_digits s =
     (if s = [] then None
      else fold (\<lambda>c acc. case (acc, map_of (zip ''0123456789'' [0 ..< 10]) c) of
                            (Some n, Some d) \<Rightarrow> Some (10 * n + d)
                          | other \<Rightarrow> None) s (Some 0))"

subsection \<open>References\<close>

text \<open>
  \<^verbatim>\<open>RefResolver.from_schema(self.schema).resolve(ref)[1]\<close> of the jsonschema library,
  for references into the schema itself: the fragment after \<open>#\<close> is split at the slashes,
  each part unescaped, and the document is walked by key (by plain decimal index in a
  list). The value found is the object inside the schema, not a copy. Anything that cannot
  be followed raises RefResolutionError; so does, in this model, a reference that does not
  start with \<open>#\<close> (another document). Percent-decoding is left out.
\<close>

fun resolve_fragment :: "heap \<Rightarrow> jval \<Rightarrow> string list \<Rightarrow> exn + jval" where
  "resolve_fragment h document [] = Inr document"
| "resolve_fragment h (JRef a) (part # parts) =
     (case map_of (h ! a) part of
        None \<Rightarrow> Inl RefResolutionError
      | Some v \<Rightarrow> resolve_fragment h v parts)"
| "resolve_fragment h (JArr xs) (part # parts) =
     (case nat_of_digits part of
        None \<Rightarrow> Inl RefResolutionError
      | Some i \<Rightarrow> if i < length xs then resolve_fragment h (xs ! i) parts else Inl RefResolutionError)"
| "resolve_fragment h (JStr s) (part # parts) =
     (case nat_of_digits part of
        None \<Rightarrow> Inl RefResolutionError
      | Some i \<Rightarrow> if i < length s then resolve_fragment h (JStr [s ! i]) parts else Inl RefResolutionError)"
| "resolve_fragment h v (part # parts) = Inl RefResolutionError"

definition fragment_parts :: "string \<Rightarrow> string list" where
  "fragment_parts fragment =
     (let stripped = dropWhile (\<lambda>c. c = CHR ''/'') fragment
      in if stripped = [] then []
         else map (\<lambda>part. replace2 (CHR ''~'') (CHR ''0'') ''~'' (replace2 (CHR ''~'') (CHR ''1'') ''/'' part))
                (split_on (CHR ''/'') stripped))"

definition resolve_ref :: "heap \<Rightarrow> nat \<Rightarrow> jval \<Rightarrow> exn + jval" where
  "resolve_ref h root_schema ref =
     (case ref of
        JStr [] \<Rightarrow> Inr (JRef root_schema)
      | JStr (c # fragment) \<Rightarrow>
          if c = CHR ''#'' then resolve_fragment h (JRef root_schema) (fragment_parts fragment)
          else Inl RefResolutionError
      | other \<Rightarrow> Inl TypeError)"

subsection \<open>The walker: \<open>_set_docs_properties\<close>\<close>

text \<open>
  Lines 419 and 420: \<^verbatim>\<open>if "$ref" in prop: prop = RefResolver...resolve(prop["$ref"])[1]\<close>.
  On a string or a list the membership test is a substring or element test, and indexing
  with \<^verbatim>\<open>"$ref"\<close> is a TypeError.
\<close>

definition deref :: "heap \<Rightarrow> nat \<Rightarrow> jval \<Rightarrow> exn + jval" where
  "deref h root_schema prop =
     (case prop of
        JRef a \<Rightarrow>
          (case map_of (h ! a) ''$ref'' of
             None \<Rightarrow> Inr prop
           | Some ref \<Rightarrow> resolve_ref h root_schema ref)
      | JStr s \<Rightarrow> if sublist ''$ref'' s then Inl TypeError else Inr prop
      | JArr xs \<Rightarrow> if JStr ''$ref'' \<in> set xs then Inl TypeError else Inr prop
      | other \<Rightarrow> Inl TypeError)"

text \<open>
  \<^verbatim>\<open>key in self.schema and proppath_ptr in self.schema[key]\<close>
\<close>

definition flagged :: "heap \<Rightarrow> nat \<Rightarrow> string \<Rightarrow> string \<Rightarrow> exn + bool" where
  "flagged h root_schema key proppath_ptr =
     (case map_of (h ! root_schema) key of
        None \<Rightarrow> Inr False
      | Some pointers \<Rightarrow> py_contains h pointers proppath_ptr)"

text \<open>\<^verbatim>\<open>prop[flag] = True\<close> where \<open>prop\<close> may be any value: only a dict takes it.\<close>

definition set_flag :: "jval \<Rightarrow> string \<Rightarrow> world \<Rightarrow> unit outcome" where
  "set_flag prop flag w =
     (case prop of
        JRef a \<Rightarrow> (Inr (), store_set a flag (JBool True) w)
      | other \<Rightarrow> (Inl TypeError, w))"

text \<open>Lines 422 to 433: the create-only and read-only marks.\<close>

definition set_flags :: "nat \<Rightarrow> jval \<Rightarrow> string list \<Rightarrow> world \<Rightarrow> unit outcome" where
  "set_flags root_schema prop proppath w =
     (let proppath_ptr = fragment_encode (''properties'' # proppath) ''''
      in case flagged (store w) root_schema ''createOnlyProperties'' proppath_ptr of
           Inl e \<Rightarrow> (Inl e, w)
         | Inr createonly \<Rightarrow>
             (case (if createonly then set_flag prop ''createonly'' w else (Inr (), w)) of
                (Inl e, w1) \<Rightarrow> (Inl e, w1)
              | (Inr u, w1) \<Rightarrow>
                  (case flagged (store w1) root_schema ''readOnlyProperties'' proppath_ptr of
                     Inl e \<Rightarrow> (Inl e, w1)
                   | Inr readonly \<Rightarrow>
                       if readonly then set_flag prop ''readonly'' w1 else (Inr (), w1))))"

text \<open>
  The branch taken on \<^verbatim>\<open>prop_type = prop.get("type", "object")\<close>: a key of
  \<open>BASIC_TYPE_MAPPINGS\<close> (with the mapped name), \<^verbatim>\<open>"array"\<close>, \<^verbatim>\<open>"object"\<close>, or
  the final \<^verbatim>\<open>else\<close>. A list or a dict as type is unhashable: the lookup in the
  mapping raises TypeError.
\<close>

datatype branch = Basic string | Array | Object | Unknown

definition BASIC_TYPE_MAPPINGS :: "(string \<times> string) list" where
  "BASIC_TYPE_MAPPINGS =
     [(''string'', ''String''), (''number'', ''Double''), (''integer'', ''Double''),
      (''boolean'', ''Boolean'')]"

definition branch_of :: "jval \<Rightarrow> exn + branch" where
  "branch_of prop_type =
     (case prop_type of
        JStr t \<Rightarrow>
          (case map_of BASIC_TYPE_MAPPINGS t of
             Some mapped \<Rightarrow> Inr (Basic mapped)
           | None \<Rightarrow> if t = ''array'' then Inr Array else if t = ''object'' then Inr Object else Inr Unknown)
      | JArr xs \<Rightarrow> Inl TypeError
      | JRef a \<Rightarrow> Inl TypeError
      | other \<Rightarrow> Inr Unknown)"

text \<open>
  Lines 419 to 437, up to the choice of the branch: the node the walker works on (after the
  reference is followed; a value without \<^verbatim>\<open>get\<close> raises AttributeError) and its branch.
  The walker runs under \<open>generate_docs\<close>, which has checked that there is a schema; without
  one the first use of \<^verbatim>\<open>self.schema\<close> fails, here with TypeError.
\<close>

definition enter :: "project \<Rightarrow> jval \<Rightarrow> string list \<Rightarrow> world \<Rightarrow> (nat \<times> branch) outcome" where
  "enter p prop proppath w =
     (case schema p of
        None \<Rightarrow> (Inl TypeError, w)
      | Some root_schema \<Rightarrow>
          (case deref (store w) root_schema prop of
             Inl e \<Rightarrow> (Inl e, w)
           | Inr prop1 \<Rightarrow>
               (case set_flags root_schema prop1 proppath w of
                  (Inl e, w1) \<Rightarrow> (Inl e, w1)
                | (Inr u, w1) \<Rightarrow>
                    (case prop1 of
                       JRef a \<Rightarrow>
                         (case branch_of (case map_of (store w1 ! a) ''type'' of
                                            None \<Rightarrow> JStr ''object''
                                          | Some t \<Rightarrow> t) of
                            Inl e \<Rightarrow> (Inl e, w1)
                          | Inr b \<Rightarrow> (Inr (a, b), w1))
                     | other \<Rightarrow> (Inl AttributeError, w1)))))"

text \<open>
  \<^verbatim>\<open>prop["jsontype"] = ...; prop["yamltype"] = ...; prop["longformtype"] = ...\<close>
\<close>

definition set_display :: "nat \<Rightarrow> string \<Rightarrow> string \<Rightarrow> string \<Rightarrow> world \<Rightarrow> world" where
  "set_display a jsontype yamltype longformtype w =
     store_set a ''longformtype'' (JStr longformtype)
       (store_set a ''yamltype'' (JStr yamltype)
          (store_set a ''jsontype'' (JStr jsontype) w))"

text \<open>Lines 477 to 480: the allowed values, and the node is returned.\<close>

definition leave :: "nat \<Rightarrow> world \<Rightarrow> jval outcome" where
  "leave a w =
     (case map_of (store w ! a) ''enum'' of
        None \<Rightarrow> (Inr (JRef a), w)
      | Some values \<Rightarrow> (Inr (JRef a), store_set a ''allowedvalues'' values w))"

text \<open>
  \<^verbatim>\<open>arrayitems[key]\<close> inside an f-string, where \<open>arrayitems\<close> is a node the walker
  returned: the walker has stored a string under each display key, which is what is formatted.
\<close>

definition display_of :: "heap \<Rightarrow> jval \<Rightarrow> string \<Rightarrow> exn + string" where
  "display_of h arrayitems key =
     (case arrayitems of
        JRef b \<Rightarrow>
          (case map_of (h ! b) key of
             Some (JStr s) \<Rightarrow> Inr s
           | Some other \<Rightarrow> Inl TypeError
           | None \<Rightarrow> Inl KeyError)
      | other \<Rightarrow> Inl TypeError)"

text \<open>Lines 441 to 446, after the items have been walked.\<close>

definition finish_array :: "nat \<Rightarrow> jval \<Rightarrow> world \<Rightarrow> jval outcome" where
  "finish_array a arrayitems w =
     (let w1 = store_set a ''arrayitems'' arrayitems w
      in case display_of (store w1) arrayitems ''jsontype'' of
           Inl e \<Rightarrow> (Inl e, w1)
         | Inr j \<Rightarrow>
             (let w2 = store_set a ''jsontype'' (JStr (''[ '' @ j @ '', ... ]'')) w1
              in case display_of (store w2) arrayitems ''longformtype'' of
                   Inl e \<Rightarrow> (Inl e, w2)
                 | Inr l \<Rightarrow>
                     (let w3 = store_set a ''yamltype'' (JStr (''\<newline>      - '' @ l)) w2
                      in case display_of (store w3) arrayitems ''longformtype'' of
                           Inl e \<Rightarrow> (Inl e, w3)
                         | Inr l' \<Rightarrow> leave a (store_set a ''longformtype'' (JStr (''List of '' @ l')) w3))))"

text \<open>
  \<^verbatim>\<open>prop.get("properties") or prop.get("patternProperties") or {}\<close>, as the object whose
  \<^verbatim>\<open>items()\<close> are walked: \<open>None\<close> is the fresh empty dict; a true value that is not a
  dict has no \<^verbatim>\<open>items\<close>.
\<close>

definition object_properties :: "heap \<Rightarrow> nat \<Rightarrow> exn + nat option" where
  "object_properties h a =
     (let chosen =
            (case map_of (h ! a) ''properties'' of
               None \<Rightarrow> None
             | Some v \<Rightarrow> if truthy h v then Some v else None);
          chosen' =
            (case chosen of
               Some v \<Rightarrow> Some v
             | None \<Rightarrow>
                 (case map_of (h ! a) ''patternProperties'' of
                    None \<Rightarrow> None
                  | Some v \<Rightarrow> if truthy h v then Some v else None))
      in case chosen' of
           None \<Rightarrow> Inr None
         | Some (JRef ao) \<Rightarrow> Inr (Some ao)
         | Some other \<Rightarrow> Inl AttributeError)"

definition subproperty_filename :: "string list \<Rightarrow> string" where
  "subproperty_filename proppath = lower (join ''-'' proppath) @ ''.md''"

definition docs_path :: "project \<Rightarrow> string" where
  "docs_path p = path_join (root p) ''docs''"

definition href :: "string \<Rightarrow> string \<Rightarrow> string" where
  \<open>href filename propname = ''<a href="'' @ filename @ ''">'' @ propname @ ''</a>''\<close>

text \<open>
  Lines 455 and 460 to 471, after the members have been walked: the new dict of members is
  stored under \<^verbatim>\<open>"properties"\<close>, the side file is rendered and written with \<open>safewrite\<close>,
  and the three display fields become the link.
\<close>

definition finish_object :: "project \<Rightarrow> string \<Rightarrow> string list \<Rightarrow> nat \<Rightarrow> dict \<Rightarrow> world \<Rightarrow> jval outcome" where
  "finish_object p propname proppath a members w =
     (let w1 = store_set a ''properties'' (JRef (length (store w))) (w\<lparr>store := store w @ [members]\<rparr>);
          subproperty_name = join '' '' proppath;
          filename = subproperty_filename proppath;
          subproperty_path = path_join (docs_path p) filename;
          w2 = LOG DEBUG ''Writing docs %s: %s'' [S filename, S subproperty_path] w1
      in case type_name p of
           Inl e \<Rightarrow> (Inl e, w2)
         | Inr tn \<Rightarrow>
             (case safewrite p subproperty_path
                     (docs_subproperty_md (env p) (store w2) tn subproperty_name (JRef a)) w2 of
                (Inl e, w3) \<Rightarrow> (Inl e, w3)
              | (Inr u, w3) \<Rightarrow>
                  leave a (set_display a (href filename propname) (href filename propname)
                             (href filename propname) w3)))"

text \<open>
  The walker. Its first argument bounds the depth of the recursion, as the interpreter's
  recursion limit does: at depth zero it raises RecursionError. \<open>walk_items\<close> is the dict
  comprehension over \<^verbatim>\<open>object_properties.items()\<close>: the dict \<open>ao\<close> is read entry by
  entry while the walker runs, and the iteration raises RuntimeError when its size has
  changed; \<open>k\<close> is the size at the start, \<open>i\<close> the position, the next argument the number
  of entries left.
\<close>

fun set_docs_properties :: "nat \<Rightarrow> project \<Rightarrow> string \<Rightarrow> jval \<Rightarrow> string list \<Rightarrow> world \<Rightarrow> jval outcome"
  and walk_items ::
    "nat \<Rightarrow> project \<Rightarrow> nat \<Rightarrow> nat \<Rightarrow> nat \<Rightarrow> nat \<Rightarrow> string list \<Rightarrow> dict \<Rightarrow> world \<Rightarrow> dict outcome"
where
  "set_docs_properties 0 p propname prop proppath w = (Inl RecursionError, w)"
| "set_docs_properties (Suc n) p propname prop proppath w =
     (case enter p prop proppath w of
        (Inl e, w1) \<Rightarrow> (Inl e, w1)
      | (Inr (a, Basic mapped), w1) \<Rightarrow> leave a (set_display a mapped mapped mapped w1)
      | (Inr (a, Array), w1) \<Rightarrow>
          (case map_of (store w1 ! a) ''items'' of
             None \<Rightarrow> (Inl KeyError, w1)
           | Some items \<Rightarrow>
               (case set_docs_properties n p propname items proppath w1 of
                  (Inl e, w2) \<Rightarrow> (Inl e, w2)
                | (Inr arrayitems, w2) \<Rightarrow> finish_array a arrayitems w2))
      | (Inr (a, Object), w1) \<Rightarrow>
          (case object_properties (store w1) a of
             Inl e \<Rightarrow> (Inl e, w1)
           | Inr None \<Rightarrow> finish_object p propname proppath a [] w1
           | Inr (Some ao) \<Rightarrow>
               (case walk_items n p ao (length (store w1 ! ao)) 0 (length (store w1 ! ao)) proppath [] w1 of
                  (Inl e, w2) \<Rightarrow> (Inl e, w2)
                | (Inr members, w2) \<Rightarrow> finish_object p propname proppath a members w2))
      | (Inr (a, Unknown), w1) \<Rightarrow> leave a (set_display a ''Unknown'' ''Unknown'' ''Unknown'' w1))"
| "walk_items n p ao k i 0 proppath members w =
     (if length (store w ! ao) \<noteq> k then (Inl RuntimeError, w) else (Inr members, w))"
| "walk_items n p ao k i (Suc left) proppath members w =
     (if length (store w ! ao) \<noteq> k then (Inl RuntimeError, w)
      else (case store w ! ao ! i of
              (name, value) \<Rightarrow>
                (case set_docs_properties n p name value (proppath @ [name]) w of
                   (Inl e, w1) \<Rightarrow> (Inl e, w1)
                 | (Inr v, w1) \<Rightarrow> walk_items n p ao k (Suc i) left proppath (set_item name v members) w1)))"

subsection \<open>\<open>generate_docs\<close>\<close>

text \<open>
  \<^verbatim>\<open>json.loads(json.dumps(v))\<close>: every dict reachable from \<open>v\<close> is built anew, at
  the end of the store. The first argument bounds the nesting the encoder follows.
\<close>

fun deep_copy :: "nat \<Rightarrow> jval \<Rightarrow> heap \<Rightarrow> exn + (jval \<times> heap)"
  and deep_copy_list :: "nat \<Rightarrow> jval list \<Rightarrow> heap \<Rightarrow> exn + (jval list \<times> heap)"
  and deep_copy_items :: "nat \<Rightarrow> dict \<Rightarrow> heap \<Rightarrow> exn + (dict \<times> heap)"
where
  "deep_copy 0 v h = Inl RecursionError"
| "deep_copy (Suc n) (JRef a) h =
     (case deep_copy_items n (h ! a) h of
        Inl e \<Rightarrow> Inl e
      | Inr (d, h1) \<Rightarrow> Inr (JRef (length h1), h1 @ [d]))"
| "deep_copy (Suc n) (JArr xs) h =
     (case deep_copy_list n xs h of
        Inl e \<Rightarrow> Inl e
      | Inr (ys, h1) \<Rightarrow> Inr (JArr ys, h1))"
| "deep_copy (Suc n) v h = Inr (v, h)"
| "deep_copy_list n [] h = Inr ([], h)"
| "deep_copy_list n (x # xs) h =
     (case deep_copy n x h of
        Inl e \<Rightarrow> Inl e
      | Inr (y, h1) \<Rightarrow>
          (case deep_copy_list n xs h1 of
             Inl e \<Rightarrow> Inl e
           | Inr (ys, h2) \<Rightarrow> Inr (y # ys, h2)))"
| "deep_copy_items n [] h = Inr ([], h)"
| "deep_copy_items n ((k, x) # kvs) h =
     (case deep_copy n x h of
        Inl e \<Rightarrow> Inl e
      | Inr (y, h1) \<Rightarrow>
          (case deep_copy_items n kvs h1 of
             Inl e \<Rightarrow> Inl e
           | Inr (d, h2) \<Rightarrow> Inr ((k, y) # d, h2)))"

text \<open>
  Modelled from the spec: \<open>traverse\<close> of \<open>rpdk.core.jsonutils.utils\<close> is not among the
  sources. Section 4.1 of the specification: the value at a path of the document is
  resolved, and the resolution fails when it is absent or the path is malformed; here a
  missing key is a KeyError, a list index that is no number a ValueError, one out of range
  an IndexError.
\<close>

fun traverse :: "heap \<Rightarrow> jval \<Rightarrow> string list \<Rightarrow> exn + jval" where
  "traverse h document [] = Inr document"
| "traverse h (JRef a) (part # parts) =
     (case map_of (h ! a) part of
        None \<Rightarrow> Inl KeyError
      | Some v \<Rightarrow> traverse h v parts)"
| "traverse h (JArr xs) (part # parts) =
     (case nat_of_digits part of
        None \<Rightarrow> Inl ValueError
      | Some i \<Rightarrow> if i < length xs then traverse h (xs ! i) parts else Inl IndexError)"
| "traverse h v (part # parts) = Inl TypeError"

text \<open>
  \<open>_get_property_description\<close> inside \<open>_get_docs_gettable_atts\<close>; the pair is the dict
  with the keys \<open>name\<close> and \<open>description\<close>.
\<close>

definition get_property_description :: "heap \<Rightarrow> nat \<Rightarrow> jval \<Rightarrow> exn + (string \<times> jval)" where
  "get_property_description h docs_schema prop =
     (case prop of
        JStr pointer \<Rightarrow>
          (case fragment_decode pointer '''' of
             Inl e \<Rightarrow> Inl e
           | Inr path \<Rightarrow>
               if path = [] then Inl IndexError
               else (let name = last path;
                         fallback = JStr (''Returns the <code>'' @ name @ ''</code> value.'')
                     in case traverse h (JRef docs_schema) (path @ [''description'']) of
                          Inr desc \<Rightarrow> Inr (name, desc)
                        | Inl KeyError \<Rightarrow> Inr (name, fallback)
                        | Inl IndexError \<Rightarrow> Inr (name, fallback)
                        | Inl ValueError \<Rightarrow> Inr (name, fallback)
                        | Inl e \<Rightarrow> Inl e))
      | other \<Rightarrow> Inl AttributeError)"

fun property_descriptions :: "heap \<Rightarrow> nat \<Rightarrow> jval list \<Rightarrow> exn + (string \<times> jval) list" where
  "property_descriptions h docs_schema [] = Inr []"
| "property_descriptions h docs_schema (prop # props) =
     (case get_property_description h docs_schema prop of
        Inl e \<Rightarrow> Inl e
      | Inr d \<Rightarrow>
          (case property_descriptions h docs_schema props of
             Inl e \<Rightarrow> Inl e
           | Inr ds \<Rightarrow> Inr (d # ds)))"

definition get_docs_gettable_atts :: "heap \<Rightarrow> nat \<Rightarrow> exn + (string \<times> jval) list" where
  "get_docs_gettable_atts h docs_schema =
     (case map_of (h ! docs_schema) ''readOnlyProperties'' of
        None \<Rightarrow> Inr []
      | Some pointers \<Rightarrow>
          (case py_iter h pointers of
             Inl e \<Rightarrow> Inl e
           | Inr props \<Rightarrow> property_descriptions h docs_schema props))"

text \<open>
  Lines 356 to 381 of \<open>generate_docs\<close>, for the schema object \<open>root_schema\<close>: the docs
  directory is emptied (\<^verbatim>\<open>rmtree\<close> and \<^verbatim>\<open>mkdir\<close>: no file is left below it), the schema
  is copied, the properties of the copy are walked and the README is written.
\<close>

definition write_docs :: "nat \<Rightarrow> project \<Rightarrow> nat \<Rightarrow> world \<Rightarrow> unit outcome" where
  "write_docs depth p root_schema w =
     (let w1 = LOG DEBUG ''Removing generated docs: %s'' [S (docs_path p)] w;
          w2 = w1\<lparr>files := (\<lambda>path. if prefix (docs_path p @ ''/'') path then None else files w1 path)\<rparr>;
          w3 = LOG DEBUG ''Writing generated docs'' [] w2
      in case deep_copy depth (JRef root_schema) (store w3) of
           Inl e \<Rightarrow> (Inl e, w3)
         | Inr (JRef docs_schema, h) \<Rightarrow>
             (let w4 = w3\<lparr>store := h\<rparr>
              in case map_of (store w4 ! docs_schema) ''properties'' of
                   None \<Rightarrow> (Inl KeyError, w4)
                 | Some (JRef ap) \<Rightarrow>
                     (case walk_items depth p ap (length (store w4 ! ap)) 0 (length (store w4 ! ap)) [] [] w4 of
                        (Inl e, w5) \<Rightarrow> (Inl e, w5)
                      | (Inr members, w5) \<Rightarrow>
                          (let w6 = store_set docs_schema ''properties'' (JRef (length (store w5)))
                                      (w5\<lparr>store := store w5 @ [members]\<rparr>);
                               w7 = LOG DEBUG ''Finished documenting nested properties'' [] w6
                           in case get_docs_primary_identifier (store w7 ! docs_schema) w7 of
                                (Inl e, w8) \<Rightarrow> (Inl e, w8)
                              | (Inr ref, w8) \<Rightarrow>
                                  (case get_docs_gettable_atts (store w8) docs_schema of
                                     Inl e \<Rightarrow> (Inl e, w8)
                                   | Inr getatt \<Rightarrow>
                                       (let readme_path = path_join (docs_path p) ''README.md'';
                                            w9 = LOG DEBUG ''Writing docs README: %s'' [S readme_path] w8
                                        in case type_name p of
                                             Inl e \<Rightarrow> (Inl e, w9)
                                           | Inr tn \<Rightarrow>
                                               safewrite p readme_path
                                                 (docs_readme_md (env p) (store w9) tn (JRef docs_schema) ref getatt)
                                                 w9))))
                 | Some other \<Rightarrow> (Inl AttributeError, w4))
         | Inr (other, h) \<Rightarrow> (Inl TypeError, w3))"

text \<open>
  \<open>generate_docs\<close>: nothing is generated without a type name, without a schema (\<open>None\<close> or
  an empty dict) or when the schema has no \<^verbatim>\<open>"properties"\<close>.
\<close>

definition generate_docs :: "nat \<Rightarrow> project \<Rightarrow> world \<Rightarrow> unit outcome" where
  "generate_docs depth p w =
     (case (type_info p, schema p) of
        (Some (t # ts), Some root_schema) \<Rightarrow>
          if store w ! root_schema = [] \<or> map_of (store w ! root_schema) ''properties'' = None
          then (Inr (), LOG WARNING ''Could not generate schema docs due to missing type info or schema'' [] w)
          else write_docs depth p root_schema w
      | other \<Rightarrow>
          (Inr (), LOG WARNING ''Could not generate schema docs due to missing type info or schema'' [] w))"


section \<open>What the specification says, in its own words\<close>



definition declared_timeouts :: "(string \<times> handler) list \<Rightarrow> int set" where
  "declared_timeouts hs = (\<lambda>h. case timeoutInMinutes h of None \<Rightarrow> 120 | Some t \<Rightarrow> t) ` snd ` set hs"

text \<open>
  The order of the remote calls of a submission, as the code makes them: the session, the
  execution role, the upload of the archive, the log role, the registration, its waiter, the
  status read and the promotion to default version.
\<close>

definition stage :: "remote_call \<Rightarrow> nat" where
  "stage c =
     (case c of
        CreateSdkSession region \<Rightarrow> 0
      | CreateOrUpdateRole template_path name \<Rightarrow> 1
      | Upload name fileobj \<Rightarrow> 2
      | GetLogDeliveryRoleArn \<Rightarrow> 3
      | RegisterType kwargs \<Rightarrow> 4
      | WaitTypeRegistrationComplete token \<Rightarrow> 5
      | DescribeTypeRegistration token \<Rightarrow> 6
      | SetTypeDefaultVersion arn \<Rightarrow> 7)"

definition is_role_call :: "remote_call \<Rightarrow> bool" where
  "is_role_call c = (case c of CreateOrUpdateRole template_path name \<Rightarrow> True | _ \<Rightarrow> False)"

section \<open>Concrete projects and worlds\<close>

definition w0 :: world where
  "w0 = \<lparr>files = Map.empty, logged = [], store = [], calls = []\<rparr>"

definition env0 :: templates where
  "env0 = \<lparr>resource_role_yml = (\<lambda>name actions permission timeout. join '','' (name # permission # actions)),
            docs_subproperty_md = (\<lambda>h tn sub v. sub),
            docs_readme_md = (\<lambda>h tn v r g. tn)\<rparr>"

definition p0 :: project where
  "p0 = \<lparr>overwrite_enabled = False, root = ''proj'', type_info = Some [''Org'', ''Svc'', ''Thing''],
          schema = None, handlers = None, env = env0\<rparr>"

definition hs1 :: "(string \<times> handler) list" where
  "hs1 = [(''create'', \<lparr>permissions = Some [''s3:PutObject''], timeoutInMinutes = None\<rparr>)]"

definition id_single :: dict where
  "id_single = [(''primaryIdentifier'', JArr [JStr ''/properties/id''])]"

definition id_two :: dict where
  "id_two = [(''primaryIdentifier'', JArr [JStr ''/properties/a'', JStr ''/properties/b''])]"

definition id_nested :: dict where
  "id_nested = [(''primaryIdentifier'', JArr [JStr ''/properties/a/b''])]"

definition r_ok :: remote where
  "r_ok = \<lparr>sdk_session = (\<lambda>region. Inr ''us-east-1''),
           uploader_create_or_update_role = (\<lambda>template_path name. Inr ''arn:aws:iam::1:role/exec''),
           uploader_upload = (\<lambda>name fileobj. Inr ''s3://bucket/key''),
           uploader_get_log_delivery_role_arn = Inr ''arn:aws:iam::1:role/log'',
           uuid4 = ''0000-0001'',
           cfn_register_type = (\<lambda>kwargs. Inr [(''RegistrationToken'', ''token-1'')]),
           cfn_wait = (\<lambda>token. None),
           cfn_describe_type_registration =
             (\<lambda>token. Inr [(''ProgressStatus'', ''COMPLETE''), (''TypeVersionArn'', ''arn:type/1'')]),
           cfn_set_type_default_version = (\<lambda>arn. None)\<rparr>"

definition r_failed :: remote where
  "r_failed = r_ok\<lparr>cfn_wait := (\<lambda>token. Some (WaiterError ''Waiter encountered a terminal failure state'')),
                   cfn_describe_type_registration :=
                     (\<lambda>token. Inr [(''ProgressStatus'', ''FAILED''),
                                   (''Description'', ''Deployment is currently in DEPLOY_STAGE of status FAILED'')])\<rparr>"

definition r_undescribed :: remote where
  "r_undescribed = r_failed\<lparr>cfn_describe_type_registration := (\<lambda>token. Inl (ClientError ''Throttling''))\<rparr>"

definition p_handlers :: project where
  "p_handlers = p0\<lparr>handlers := Some hs1\<rparr>"

definition w_project :: world where
  "w_project = w0\<lparr>files := [''proj/org-svc-thing.json'' \<mapsto> Text ''{}'',
                             ''proj/.rpdk-config'' \<mapsto> Text ''settings'']\<rparr>"

text \<open>
  A schema whose property \<open>a\<close> is a reference to the definition \<open>D\<close>, a string:
  \<^verbatim>\<open>{"properties": {"a": {"$ref": "#/definitions/D"}}, "definitions": {"D": {"type": "string"}}}\<close>.
  Dict 0 is the schema, dict 4 is \<open>D\<close>.
\<close>

definition w_ref :: world where
  "w_ref = w0\<lparr>store :=
     [[(''properties'', JRef 1), (''definitions'', JRef 3)],
      [(''a'', JRef 2)],
      [(''$ref'', JStr ''#/definitions/D'')],
      [(''D'', JRef 4)],
      [(''type'', JStr ''string'')]]\<rparr>"

definition p_ref :: project where
  "p_ref = p0\<lparr>schema := Some 0\<rparr>"



text \<open>
  Two properties that refer to one definition, whose member \<open>x\<close> is create-only under \<open>a\<close>
  alone:
  \<^verbatim>\<open>{"properties": {"b": {"$ref": "#/definitions/D"}, "a": {"$ref": "#/definitions/D"}},
    "definitions": {"D": {"properties": {"x": {"type": "string"}}}},
    "createOnlyProperties": ["/properties/a/x"]}\<close>.
  The template of the side files lists the members of the node and marks the create-only
  ones.
\<close>

definition w_shared :: world where
  "w_shared = w0\<lparr>store :=
     [[(''properties'', JRef 1), (''definitions'', JRef 4),
       (''createOnlyProperties'', JArr [JStr ''/properties/a/x''])],
      [(''b'', JRef 2), (''a'', JRef 3)],
      [(''$ref'', JStr ''#/definitions/D'')],
      [(''$ref'', JStr ''#/definitions/D'')],
      [(''D'', JRef 5)],
      [(''properties'', JRef 6)],
      [(''x'', JRef 7)],
      [(''type'', JStr ''string'')]]\<rparr>"

definition members_md :: "heap \<Rightarrow> string \<Rightarrow> string \<Rightarrow> jval \<Rightarrow> string" where
  "members_md h tn subproperty_name node =
     (case node of
        JRef a \<Rightarrow>
          (case map_of (h ! a) ''properties'' of
             Some (JRef m) \<Rightarrow>
               concat (map (\<lambda>(name, member).
                              case member of
                                JRef b \<Rightarrow>
                                  name @ (if map_of (h ! b) ''createonly'' = Some (JBool True)
                                          then '' (create-only)'' else '''')
                              | other \<Rightarrow> name) (h ! m))
           | other \<Rightarrow> [])
      | other \<Rightarrow> [])"

definition p_shared :: project where
  "p_shared = p_ref\<lparr>env := env0\<lparr>docs_subproperty_md := members_md\<rparr>\<rparr>"

section \<open>Theorems\<close>

subsection \<open>The role template\<close>




lemma max_handler_timeout_Max:
  "max_handler_timeout hs = (if hs = [] then 120 else Max (declared_timeouts hs))"
proof (cases hs)
  case Nil
  then show ?thesis by (simp add: max_handler_timeout_def DEFAULT_ROLE_TIMEOUT_MINUTES_def)
next
  case (Cons x xs)
  let ?f = "\<lambda>(operation :: string, h). case timeoutInMinutes h of None \<Rightarrow> DEFAULT_ROLE_TIMEOUT_MINUTES | Some t \<Rightarrow> t"
  have "set (map ?f hs) = declared_timeouts hs"
    by (force simp: declared_timeouts_def DEFAULT_ROLE_TIMEOUT_MINUTES_def split: option.splits)
  moreover have "fold max (map ?f xs) (?f x) = Max (set (?f x # map ?f xs))"
    by (rule Max.set_eq_fold [symmetric])
  then have "max_handler_timeout hs = Max (set (map ?f hs))"
    using Cons by (simp add: max_handler_timeout_def)
  ultimately show ?thesis using Cons by simp
qed


text \<open>
  Claim C8. \<open>generate\<close> writes the role template if and only if the schema declares
  handlers: without the key, the plugin's generate runs on the untouched world (no file
  written); with it, the file \<open>resource-role.yaml\<close> under the project root holds the rendered
  template when the plugin takes over. When no declared handler has a timeout, the session
  timeout is computed from the default of 120 minutes.
\<close>

theorem generate_role_template_iff_handlers:
  "(handlers p = None \<longrightarrow> generate plugin_generate p w = plugin_generate p w)
   \<and> (\<forall>hs ti. handlers p = Some hs \<and> type_info p = Some ti \<longrightarrow>
         generate plugin_generate p w =
           plugin_generate p
             (overwrite (path_join (root p) ''resource-role.yaml'')
                (resource_role_yml (env p) (lower (join ''-'' ti)) (role_actions hs)
                   (role_permission hs) (role_session_timeout hs))
                (LOG DEBUG ''Writing Resource Role CloudFormation template: %s''
                   [S (path_join (root p) ''resource-role.yaml'')] w)))
   \<and> (\<forall>hs. (\<forall>h \<in> snd ` set hs. timeoutInMinutes h = None) \<longrightarrow>
         role_session_timeout hs = 70 * 120)"
proof (intro conjI allI impI)
  assume "handlers p = None"
  then show "generate plugin_generate p w = plugin_generate p w"
    by (simp add: generate_def generate_role_template_def)
next
  fix hs ti
  assume "handlers p = Some hs \<and> type_info p = Some ti"
  then show "generate plugin_generate p w =
           plugin_generate p
             (overwrite (path_join (root p) ''resource-role.yaml'')
                (resource_role_yml (env p) (lower (join ''-'' ti)) (role_actions hs)
                   (role_permission hs) (role_session_timeout hs))
                (LOG DEBUG ''Writing Resource Role CloudFormation template: %s''
                   [S (path_join (root p) ''resource-role.yaml'')] w))"
    by (simp add: generate_def generate_role_template_def hypenated_name_def
        ROLE_TEMPLATE_FILENAME_def Let_def)
next
  fix hs :: "(string \<times> handler) list"
  assume none: "\<forall>h \<in> snd ` set hs. timeoutInMinutes h = None"
  have "max_handler_timeout hs = 120"
  proof (cases "hs = []")
    case True
    then show ?thesis by (simp add: max_handler_timeout_Max)
  next
    case False
    with none have "declared_timeouts hs = {120}"
      by (cases hs) (auto simp: declared_timeouts_def)
    with False show ?thesis by (simp add: max_handler_timeout_Max)
  qed
  then show "role_session_timeout hs = 70 * 120"
    by (simp add: role_session_timeout_def MAX_ROLE_TIMEOUT_SECONDS_def MIN_ROLE_TIMEOUT_SECONDS_def)
qed

theorem generate_role_template_iff_handlers_witness:
  "handlers p0 = None
   \<and> generate (\<lambda>p w. (Inr (), w)) p0 w0 = (Inr (), w0)
   \<and> files (snd (generate (\<lambda>p w. (Inr (), w)) p0 w0)) ''proj/resource-role.yaml'' = None
   \<and> handlers (p0\<lparr>handlers := Some hs1\<rparr>) = Some hs1
   \<and> type_info (p0\<lparr>handlers := Some hs1\<rparr>) = Some [''Org'', ''Svc'', ''Thing'']
   \<and> files (snd (generate (\<lambda>p w. (Inr (), w)) (p0\<lparr>handlers := Some hs1\<rparr>) w0)) ''proj/resource-role.yaml''
       = Some (Text ''org-svc-thing,Allow,s3:PutObject'')
   \<and> map (\<lambda>(operation, h). timeoutInMinutes h) hs1 = [None]
   \<and> role_session_timeout hs1 = 8400"
proof -
  have a: "handlers p0 = None" by (simp add: p0_def)
  have b: "handlers (p0\<lparr>handlers := Some hs1\<rparr>) = Some hs1 \<and>
           type_info (p0\<lparr>handlers := Some hs1\<rparr>) = Some [''Org'', ''Svc'', ''Thing'']"
    by (simp add: p0_def)
  have c: "\<forall>h \<in> snd ` set hs1. timeoutInMinutes h = None" by (simp add: hs1_def)
  note t0 = generate_role_template_iff_handlers [of p0 "\<lambda>p w. (Inr (), w)" w0]
  note t1 = generate_role_template_iff_handlers [of "p0\<lparr>handlers := Some hs1\<rparr>" "\<lambda>p w. (Inr (), w)" w0]
  from t0 a have g0: "generate (\<lambda>p w. (Inr (), w)) p0 w0 = (Inr (), w0)" by blast
  from t1 b have g1: "generate (\<lambda>p w. (Inr (), w)) (p0\<lparr>handlers := Some hs1\<rparr>) w0 =
     (Inr (), overwrite (path_join (root (p0\<lparr>handlers := Some hs1\<rparr>)) ''resource-role.yaml'')
                (resource_role_yml (env (p0\<lparr>handlers := Some hs1\<rparr>)) (lower (join ''-'' [''Org'', ''Svc'', ''Thing''])) (role_actions hs1)
                   (role_permission hs1) (role_session_timeout hs1))
                (LOG DEBUG ''Writing Resource Role CloudFormation template: %s''
                   [S (path_join (root (p0\<lparr>handlers := Some hs1\<rparr>)) ''resource-role.yaml'')] w0))" by blast
  from t0 c have g2: "role_session_timeout hs1 = 70 * 120" by blast
  have f0: "files (snd (generate (\<lambda>p w. (Inr (), w)) p0 w0)) ''proj/resource-role.yaml'' = None"
    using g0 by (simp add: w0_def)
  have f1: "files (snd (generate (\<lambda>p w. (Inr (), w)) (p0\<lparr>handlers := Some hs1\<rparr>) w0)) ''proj/resource-role.yaml''
       = Some (Text ''org-svc-thing,Allow,s3:PutObject'')"
    using g1 by (simp add: overwrite_def LOG_def p0_def env0_def w0_def path_join_def lower_def lower_char_def
        role_actions_def role_permission_def role_actions_raw_def hs1_def)
  have c': "map (\<lambda>(operation, h). timeoutInMinutes h) hs1 = [None]" by (simp add: hs1_def)
  from a b c' g0 g2 f0 f1 show ?thesis by simp
qed

subsection \<open>safewrite\<close>

text \<open>
  Claim C10. When the target path already exists and overwriting is disabled, \<open>safewrite\<close>
  returns normally (the FileExistsError is caught), leaves every file as it was and logs
  one warning.
\<close>

theorem safewrite_keeps_existing_file:
  "files w path = Some old \<Longrightarrow> \<not> overwrite_enabled p \<Longrightarrow>
   safewrite p path cont w =
     (Inr (), LOG WARNING (''File already exists, not overwriting '%s'' @ [CHR 0x27]) [S path] w)
   \<and> files (snd (safewrite p path cont w)) = files w
   \<and> fst (safewrite p path cont w) = Inr ()
   \<and> logged (snd (safewrite p path cont w)) =
       logged w @ [(WARNING, ''File already exists, not overwriting '%s'' @ [CHR 0x27], [S path])]"
  by (simp add: safewrite_def write_exclusive_def LOG_def)

theorem safewrite_keeps_existing_file_witness:
  "files (w0\<lparr>files := [''proj/docs/README.md'' \<mapsto> Text ''old'']\<rparr>) ''proj/docs/README.md'' = Some (Text ''old'')
   \<and> \<not> overwrite_enabled p0
   \<and> fst (safewrite p0 ''proj/docs/README.md'' ''new'' (w0\<lparr>files := [''proj/docs/README.md'' \<mapsto> Text ''old'']\<rparr>)) = Inr ()
   \<and> files (snd (safewrite p0 ''proj/docs/README.md'' ''new'' (w0\<lparr>files := [''proj/docs/README.md'' \<mapsto> Text ''old'']\<rparr>)))
        ''proj/docs/README.md'' = Some (Text ''old'')"
  using safewrite_keeps_existing_file
    [of "w0\<lparr>files := [''proj/docs/README.md'' \<mapsto> Text ''old'']\<rparr>" "''proj/docs/README.md''" "Text ''old''" p0 "''new''"]
  by (simp add: p0_def w0_def LOG_def)

subsection \<open>The primary identifier\<close>

lemma fragment_decode_id: "fragment_decode ''/properties/id'' '''' = Inr [''properties'', ''id'']"
  by (simp add: fragment_decode_def part_decode_def)

lemma fragment_decode_nested: "fragment_decode ''/properties/a/b'' '''' = Inr [''properties'', ''a'', ''b'']"
  by (simp add: fragment_decode_def part_decode_def)

text \<open>
  Claim C5, as the code has it. A single entry \<open>/properties/id\<close> resolves to \<open>id\<close> (any
  single entry with one segment after the first resolves to that segment). A list of two or
  more entries resolves to no value without logging anything; a single entry with two or
  more segments after the first resolves to no value and logs the warning
  \<open>Nested primaryIdentifier found\<close>. None of these raises.
\<close>

theorem primary_identifier_resolution:
  "(map_of d ''primaryIdentifier'' = Some (JArr [JStr s]) \<and> fragment_decode s '''' = Inr [seg0, seg]
      \<longrightarrow> get_docs_primary_identifier d w = (Inr (Some seg), w))
   \<and> fragment_decode ''/properties/id'' '''' = Inr [''properties'', ''id'']
   \<and> (map_of d ''primaryIdentifier'' = Some (JArr xs) \<and> 2 \<le> length xs
      \<longrightarrow> get_docs_primary_identifier d w = (Inr None, w))
   \<and> (map_of d ''primaryIdentifier'' = Some (JArr [JStr s]) \<and> fragment_decode s '''' = Inr (seg0 # segs)
        \<and> 2 \<le> length segs
      \<longrightarrow> get_docs_primary_identifier d w = (Inr None, LOG WARNING ''Nested primaryIdentifier found'' [] w))"
  by (auto simp: get_docs_primary_identifier_def primary_identifier_try_def fragment_decode_id)

theorem primary_identifier_resolution_witness:
  "get_docs_primary_identifier id_single w0 = (Inr (Some ''id''), w0)
   \<and> get_docs_primary_identifier id_two w0 = (Inr None, w0)
   \<and> get_docs_primary_identifier id_nested w0 = (Inr None, LOG WARNING ''Nested primaryIdentifier found'' [] w0)"
proof -
  have a: "map_of id_single ''primaryIdentifier'' = Some (JArr [JStr ''/properties/id''])"
    by (simp add: id_single_def)
  have b: "map_of id_two ''primaryIdentifier'' = Some (JArr [JStr ''/properties/a'', JStr ''/properties/b''])
           \<and> 2 \<le> length [JStr ''/properties/a'', JStr ''/properties/b'']"
    by (simp add: id_two_def)
  have c: "map_of id_nested ''primaryIdentifier'' = Some (JArr [JStr ''/properties/a/b''])
           \<and> 2 \<le> length [''a'', ''b'']"
    by (simp add: id_nested_def)
  from primary_identifier_resolution
         [of id_single "''/properties/id''" "''properties''" "''id''" w0] a fragment_decode_id
  have 1: "get_docs_primary_identifier id_single w0 = (Inr (Some ''id''), w0)" by blast
  from primary_identifier_resolution
         [of id_two _ _ _ w0 "[JStr ''/properties/a'', JStr ''/properties/b'']"] b
  have 2: "get_docs_primary_identifier id_two w0 = (Inr None, w0)" by blast
  from primary_identifier_resolution
         [of id_nested "''/properties/a/b''" "''properties''" _ w0 _ "[''a'', ''b'']"] c fragment_decode_nested
  have 3: "get_docs_primary_identifier id_nested w0 = (Inr None, LOG WARNING ''Nested primaryIdentifier found'' [] w0)"
    by blast
  from 1 2 3 show ?thesis by blast
qed

text \<open>
  Claim C5 as stated fails for a list of two entries: the value is absent, but the log
  stays empty, no warning is written.
\<close>

theorem primary_identifier_two_entries_counterexample:
  "fst (get_docs_primary_identifier id_two w0) = Inr None
   \<and> logged (snd (get_docs_primary_identifier id_two w0)) = []"
  by (simp add: get_docs_primary_identifier_def primary_identifier_try_def id_two_def w0_def)

subsection \<open>Waiting for the registration\<close>

lemma calls_LOG [simp]: "calls (LOG lv fmt args w) = calls w"
  by (simp add: LOG_def)

lemma calls_call [simp]: "calls (call c w) = calls w @ [c]"
  by (simp add: call_def)

lemma files_LOG [simp]: "files (LOG lv fmt args w) = files w"
  by (simp add: LOG_def)

lemma files_call [simp]: "files (call c w) = files w"
  by (simp add: call_def)

lemma logged_LOG [simp]: "logged (LOG lv fmt args w) = logged w @ [(lv, fmt, args)]"
  by (simp add: LOG_def)

lemma logged_call [simp]: "logged (call c w) = logged w"
  by (simp add: call_def)

text \<open>
  Claim C2, as the code has it. When the waiter raises WaiterError, exactly one
  \<open>describe_type_registration\<close> call follows the wait. If it answers, the response is logged
  in a warning and a DownstreamError with the fixed message \<open>Type registration error\<close> is
  raised from the waiter's error; if it raises ClientError, a DownstreamError
  \<open>Error describing type registration\<close> is raised from that ClientError.
\<close>

theorem wait_failure_diagnosis:
  assumes "cfn_wait cfn token = Some (WaiterError m)"
  shows "calls (snd (wait_for_registration cfn token set_default w)) =
           calls w @ [WaitTypeRegistrationComplete token, DescribeTypeRegistration token]
   \<and> (\<forall>response. cfn_describe_type_registration cfn token = Inr response \<longrightarrow>
         fst (wait_for_registration cfn token set_default w) =
           Inl (DownstreamError ''Type registration error'' (WaiterError m))
         \<and> last (logged (snd (wait_for_registration cfn token set_default w))) =
             (WARNING, ''Please see response for additional information: '%s'' @ [CHR 0x27], [R response]))
   \<and> (\<forall>d. cfn_describe_type_registration cfn token = Inl (ClientError d) \<longrightarrow>
         fst (wait_for_registration cfn token set_default w) =
           Inl (DownstreamError ''Error describing type registration'' (ClientError d)))"
  using assms
  by (auto simp: wait_for_registration_def Let_def split: sum.splits exn.splits)

theorem wait_failure_diagnosis_witness:
  "cfn_wait r_failed ''token-1'' = Some (WaiterError ''Waiter encountered a terminal failure state'')
   \<and> calls (snd (wait_for_registration r_failed ''token-1'' False w0)) =
       [WaitTypeRegistrationComplete ''token-1'', DescribeTypeRegistration ''token-1'']
   \<and> fst (wait_for_registration r_failed ''token-1'' False w0) =
       Inl (DownstreamError ''Type registration error'' (WaiterError ''Waiter encountered a terminal failure state''))
   \<and> cfn_wait r_undescribed ''token-1'' = Some (WaiterError ''Waiter encountered a terminal failure state'')
   \<and> fst (wait_for_registration r_undescribed ''token-1'' False w0) =
       Inl (DownstreamError ''Error describing type registration'' (ClientError ''Throttling''))"
proof -
  have a: "cfn_wait r_failed ''token-1'' = Some (WaiterError ''Waiter encountered a terminal failure state'')"
    by (simp add: r_failed_def)
  have b: "cfn_wait r_undescribed ''token-1'' = Some (WaiterError ''Waiter encountered a terminal failure state'')"
    by (simp add: r_undescribed_def r_failed_def)
  have c: "cfn_describe_type_registration r_failed ''token-1'' =
             Inr [(''ProgressStatus'', ''FAILED''),
                  (''Description'', ''Deployment is currently in DEPLOY_STAGE of status FAILED'')]"
    by (simp add: r_failed_def)
  have d: "cfn_describe_type_registration r_undescribed ''token-1'' = Inl (ClientError ''Throttling'')"
    by (simp add: r_undescribed_def)
  note t1 = wait_failure_diagnosis [OF a, of False w0]
  note t2 = wait_failure_diagnosis [OF b, of False w0]
  from t1 have 1: "calls (snd (wait_for_registration r_failed ''token-1'' False w0)) =
       [WaitTypeRegistrationComplete ''token-1'', DescribeTypeRegistration ''token-1'']"
    by (simp add: w0_def)
  from t1 c have 2: "fst (wait_for_registration r_failed ''token-1'' False w0) =
       Inl (DownstreamError ''Type registration error'' (WaiterError ''Waiter encountered a terminal failure state''))"
    by blast
  from t2 d have 3: "fst (wait_for_registration r_undescribed ''token-1'' False w0) =
       Inl (DownstreamError ''Error describing type registration'' (ClientError ''Throttling''))"
    by blast
  from a b 1 2 3 show ?thesis by blast
qed

text \<open>
  Claim C2 as stated fails: the failure reason read by the diagnostic call is not part of
  the message of the error raised, which is the same for every response.
\<close>

theorem wait_failure_message_counterexample:
  "fst (wait_for_registration r_failed ''token-1'' False w0) =
     Inl (DownstreamError ''Type registration error'' (WaiterError ''Waiter encountered a terminal failure state''))
   \<and> cfn_describe_type_registration r_failed ''token-1'' =
       Inr [(''ProgressStatus'', ''FAILED''),
            (''Description'', ''Deployment is currently in DEPLOY_STAGE of status FAILED'')]
   \<and> \<not> sublist ''Deployment is currently in DEPLOY_STAGE of status FAILED'' ''Type registration error''"
  by (simp add: wait_for_registration_def r_failed_def r_ok_def w0_def sublist_code)

subsection \<open>The order of a submission\<close>

lemma stage_simps [simp]:
  "stage (CreateSdkSession region) = 0"
  "stage (CreateOrUpdateRole template_path name) = 1"
  "stage (Upload name fileobj) = 2"
  "stage GetLogDeliveryRoleArn = 3"
  "stage (RegisterType kwargs) = 4"
  "stage (WaitTypeRegistrationComplete token) = 5"
  "stage (DescribeTypeRegistration token) = 6"
  "stage (SetTypeDefaultVersion arn) = 7"
  by (simp_all add: stage_def)

lemma wait_for_registration_calls:
  "\<exists>xs. calls (snd (wait_for_registration cfn token set_default w)) = calls w @ xs
        \<and> sorted_wrt (<) (map stage xs) \<and> (\<forall>c \<in> set xs. 5 \<le> stage c)"
  by (auto simp: wait_for_registration_def Let_def split: option.splits sum.splits exn.splits)

lemma register_type_calls:
  "\<exists>xs. calls (snd (case cfn_register_type r kwargs of
                       Inl (ClientError d) \<Rightarrow>
                         (Inl (DownstreamError ''Unknown CloudFormation error'' (ClientError d)),
                          LOG DEBUG ''Registering type resulted in unknown ClientError'' [E (ClientError d)]
                            (call (RegisterType kwargs) w))
                     | Inl e \<Rightarrow> (Inl e, call (RegisterType kwargs) w)
                     | Inr response \<Rightarrow>
                         (case map_of response ''RegistrationToken'' of
                            None \<Rightarrow> (Inl KeyError, call (RegisterType kwargs) w)
                          | Some token \<Rightarrow>
                              wait_for_registration r token set_default (call (RegisterType kwargs) w)))) = calls w @ xs
        \<and> sorted_wrt (<) (map stage xs) \<and> (\<forall>c \<in> set xs. 4 \<le> stage c)"
proof (cases "cfn_register_type r kwargs")
  case (Inl e)
  then show ?thesis
    by (cases e) simp_all
next
  case (Inr response)
  show ?thesis
  proof (cases "map_of response ''RegistrationToken''")
    case None
    with Inr show ?thesis by simp
  next
    case (Some token)
    obtain ys where ys: "calls (snd (wait_for_registration r token set_default (call (RegisterType kwargs) w)))
          = calls (call (RegisterType kwargs) w) @ ys"
      "sorted_wrt (<) (map stage ys)" "\<forall>c \<in> set ys. 5 \<le> stage c"
      using wait_for_registration_calls by blast
    have s1: "sorted_wrt (<) (map stage (RegisterType kwargs # ys))"
      using ys(2,3) by auto
    have s2: "\<forall>c \<in> set (RegisterType kwargs # ys). 4 \<le> stage c"
      using ys(3) by auto
    show ?thesis
      by (rule exI [where x = "RegisterType kwargs # ys"]) (use Inr Some ys(1) s1 s2 in \<open>simp\<close>)
  qed
qed

lemma register_calls:
  "\<exists>xs. calls (snd (register p r s3_url log_delivery_role role_arn use_role set_default w)) = calls w @ xs
        \<and> sorted_wrt (<) (map stage xs) \<and> (\<forall>c \<in> set xs. 4 \<le> stage c)"
proof (cases "type_name p")
  case (Inl e)
  then show ?thesis by (simp add: register_def)
next
  case tn: (Inr tn)
  show ?thesis
  proof (cases "hypenated_name p")
    case (Inl e)
    with tn show ?thesis by (simp add: register_def)
  next
    case (Inr name)
    with tn show ?thesis
      unfolding register_def Let_def
      by (simp only: sum.case) (rule register_type_calls)
  qed
qed

lemma provision_role_calls:
  "calls (snd (provision_role p r role_arn use_role w)) =
     calls w @ (if use_role \<and> \<not> truthy_arg role_arn \<and> handlers p \<noteq> None
                then (case hypenated_name p of
                        Inl e \<Rightarrow> []
                      | Inr name \<Rightarrow> [CreateOrUpdateRole (path_join (root p) ROLE_TEMPLATE_FILENAME) name])
                else [])"
  by (auto simp: provision_role_def Let_def split: sum.splits)

lemma after_role_calls:
  "\<exists>xs. calls (snd (case hypenated_name p of
                        Inl e \<Rightarrow> (Inl e, w4)
                      | Inr name \<Rightarrow>
                          (let w5 = call (Upload name fileobj) w4
                           in case uploader_upload r name fileobj of
                                Inl e \<Rightarrow> (Inl e, w5)
                              | Inr s3_url \<Rightarrow>
                                  (let w6 = LOG DEBUG ''Got S3 URL: %s'' [S s3_url] w5;
                                       w7 = call GetLogDeliveryRoleArn w6
                                   in case uploader_get_log_delivery_role_arn r of
                                        Inl e \<Rightarrow> (Inl e, w7)
                                      | Inr log_delivery_role \<Rightarrow>
                                          register p r s3_url log_delivery_role role_arn' use_role set_default
                                            (LOG DEBUG ''Got Log Role: %s'' [S log_delivery_role] w7))))) = calls w4 @ xs
        \<and> sorted_wrt (<) (map stage xs) \<and> (\<forall>c \<in> set xs. 2 \<le> stage c)"
proof (cases "hypenated_name p")
  case (Inl e)
  then show ?thesis by simp
next
  case name: (Inr name)
  show ?thesis
  proof (cases "uploader_upload r name fileobj")
    case (Inl e)
    with name show ?thesis by simp
  next
    case url: (Inr s3_url)
    show ?thesis
    proof (cases "uploader_get_log_delivery_role_arn r")
      case (Inl e)
      with name url show ?thesis by (simp add: Let_def)
    next
      case lr: (Inr log_delivery_role)
      let ?w = "LOG DEBUG ''Got Log Role: %s'' [S log_delivery_role]
                  (call GetLogDeliveryRoleArn (LOG DEBUG ''Got S3 URL: %s'' [S s3_url] (call (Upload name fileobj) w4)))"
      obtain ys where ys:
        "calls (snd (register p r s3_url log_delivery_role role_arn' use_role set_default ?w)) = calls ?w @ ys"
        "sorted_wrt (<) (map stage ys)" "\<forall>c \<in> set ys. 4 \<le> stage c"
        using register_calls by blast
      have s1: "sorted_wrt (<) (map stage (Upload name fileobj # GetLogDeliveryRoleArn # ys))"
        using ys(2,3) by auto
      have s2: "\<forall>c \<in> set (Upload name fileobj # GetLogDeliveryRoleArn # ys). 2 \<le> stage c"
        using ys(3) by auto
      show ?thesis
        by (rule exI [where x = "Upload name fileobj # GetLogDeliveryRoleArn # ys"])
          (use name url lr ys(1) s1 s2 in \<open>simp add: Let_def\<close>)
    qed
  qed
qed

lemma role_step_stage:
  "\<forall>c \<in> set (if b then (case x of Inl e \<Rightarrow> [] | Inr name \<Rightarrow> [CreateOrUpdateRole tp name]) else []).
     stage c = 1"
  by (cases b; cases x; simp)

lemma role_step_sorted:
  "sorted_wrt (<) (map stage (if b then (case x of Inl e \<Rightarrow> [] | Inr name \<Rightarrow> [CreateOrUpdateRole tp name]) else []))"
  by (cases b; cases x; simp)

lemma role_step_iff:
  "(\<exists>c \<in> set (if b then (case Inr n of Inl e \<Rightarrow> [] | Inr name \<Rightarrow> [CreateOrUpdateRole tp name]) else []).
      is_role_call c) \<longleftrightarrow> b"
  by (cases b; simp add: is_role_call_def)

lemma upload_calls:
  "\<exists>xs. calls (snd (upload p r fileobj endpoint_url region_name role_arn use_role set_default w)) =
          calls w @ CreateSdkSession region_name # xs
        \<and> sorted_wrt (<) (map stage (CreateSdkSession region_name # xs))
        \<and> (\<forall>region. sdk_session r region_name = Inr region \<and> type_info p \<noteq> None \<longrightarrow>
             ((\<exists>c \<in> set xs. is_role_call c) \<longleftrightarrow> use_role \<and> \<not> truthy_arg role_arn \<and> handlers p \<noteq> None))"
proof (cases "sdk_session r region_name")
  case (Inl e)
  then show ?thesis by (simp add: upload_def Let_def)
next
  case (Inr region)
  let ?w3 = "LOG DEBUG (''Uploading to region '%s'' @ [CHR 0x27]) [S region]
               (call (CreateSdkSession region_name) (LOG DEBUG ''Packaging complete, uploading...'' [] w))"
  let ?C = "use_role \<and> \<not> truthy_arg role_arn \<and> handlers p \<noteq> None"
  obtain res w4 where pr: "provision_role p r role_arn use_role ?w3 = (res, w4)"
    by (cases "provision_role p r role_arn use_role ?w3")
  define rs where "rs =
     (if ?C then (case hypenated_name p of
                    Inl e \<Rightarrow> []
                  | Inr name \<Rightarrow> [CreateOrUpdateRole (path_join (root p) ROLE_TEMPLATE_FILENAME) name])
      else [])"
  have w4: "calls w4 = calls w @ CreateSdkSession region_name # rs"
    using provision_role_calls [of p r role_arn use_role ?w3] pr by (simp add: rs_def)
  have rs_stage: "\<forall>c \<in> set rs. stage c = 1"
    unfolding rs_def by (rule role_step_stage)
  have rs_sorted: "sorted_wrt (<) (map stage rs)"
    unfolding rs_def by (rule role_step_sorted)
  have rs_role: "(\<exists>c \<in> set rs. is_role_call c) \<longleftrightarrow> ?C" if "type_info p \<noteq> None"
  proof -
    from that obtain ti where "type_info p = Some ti" by blast
    then have "hypenated_name p = Inr (lower (join ''-'' ti))"
      by (simp add: hypenated_name_def)
    then show ?thesis
      unfolding rs_def by (simp only: role_step_iff)
  qed
  show ?thesis
  proof (cases res)
    case (Inl e)
    then have up: "upload p r fileobj endpoint_url region_name role_arn use_role set_default w = (Inl e, w4)"
      using Inr pr by (simp add: upload_def Let_def)
    show ?thesis
      by (rule exI [where x = rs]) (use up w4 rs_stage rs_sorted rs_role Inr in \<open>auto\<close>)
  next
    case role: (Inr role_arn')
    obtain ys where ys: "calls (snd (case hypenated_name p of
                        Inl e \<Rightarrow> (Inl e, w4)
                      | Inr name \<Rightarrow>
                          (let w5 = call (Upload name fileobj) w4
                           in case uploader_upload r name fileobj of
                                Inl e \<Rightarrow> (Inl e, w5)
                              | Inr s3_url \<Rightarrow>
                                  (let w6 = LOG DEBUG ''Got S3 URL: %s'' [S s3_url] w5;
                                       w7 = call GetLogDeliveryRoleArn w6
                                   in case uploader_get_log_delivery_role_arn r of
                                        Inl e \<Rightarrow> (Inl e, w7)
                                      | Inr log_delivery_role \<Rightarrow>
                                          register p r s3_url log_delivery_role role_arn' use_role set_default
                                            (LOG DEBUG ''Got Log Role: %s'' [S log_delivery_role] w7))))) = calls w4 @ ys"
      "sorted_wrt (<) (map stage ys)" "\<forall>c \<in> set ys. 2 \<le> stage c"
      using after_role_calls by blast
    have eq: "calls (snd (upload p r fileobj endpoint_url region_name role_arn use_role set_default w)) =
          calls w @ CreateSdkSession region_name # (rs @ ys)"
      using Inr pr role ys(1) w4 by (simp add: upload_def Let_def)
    have sorted: "sorted_wrt (<) (map stage (CreateSdkSession region_name # (rs @ ys)))"
      using ys(2,3) rs_stage rs_sorted by (fastforce simp: sorted_wrt_append)
    have not_role: "\<not> (\<exists>c \<in> set ys. is_role_call c)"
      using ys(3) by (auto simp: is_role_call_def split: remote_call.splits)
    have role_iff: "(\<exists>c \<in> set (rs @ ys). is_role_call c) \<longleftrightarrow> ?C" if "type_info p \<noteq> None"
      using rs_role [OF that] not_role by auto
    show ?thesis
      by (rule exI [where x = "rs @ ys"]) (use eq sorted role_iff in \<open>blast\<close>)
  qed
qed

text \<open>
  Claim C3, as the code has it. The remote calls of \<open>_upload\<close> follow the order session,
  execution role, upload, log role, registration, waiter, status read, default version, each
  at most once: the execution role is provisioned before the archive is uploaded. With a
  session and a type name, the role is provisioned exactly when the caller asked to use a
  role, passed no role ARN (none or the empty string) and the schema declares handlers.
\<close>

theorem upload_call_order:
  "\<exists>xs. calls (snd (upload p r fileobj endpoint_url region_name role_arn use_role set_default w)) = calls w @ xs
        \<and> sorted_wrt (<) (map stage xs)
        \<and> (\<forall>region. sdk_session r region_name = Inr region \<and> type_info p \<noteq> None \<longrightarrow>
             ((\<exists>c \<in> set xs. is_role_call c) \<longleftrightarrow> use_role \<and> \<not> truthy_arg role_arn \<and> handlers p \<noteq> None))"
proof -
  obtain ys where ys:
    "calls (snd (upload p r fileobj endpoint_url region_name role_arn use_role set_default w)) =
       calls w @ CreateSdkSession region_name # ys"
    "sorted_wrt (<) (map stage (CreateSdkSession region_name # ys))"
    "\<forall>region. sdk_session r region_name = Inr region \<and> type_info p \<noteq> None \<longrightarrow>
       ((\<exists>c \<in> set ys. is_role_call c) \<longleftrightarrow> use_role \<and> \<not> truthy_arg role_arn \<and> handlers p \<noteq> None)"
    using upload_calls by blast
  have "(\<exists>c \<in> set (CreateSdkSession region_name # ys). is_role_call c) \<longleftrightarrow> (\<exists>c \<in> set ys. is_role_call c)"
    by (simp add: is_role_call_def)
  with ys show ?thesis
    by (intro exI [where x = "CreateSdkSession region_name # ys"]) (simp only: simp_thms)
qed

theorem upload_call_order_witness:
  "sdk_session r_ok None = Inr ''us-east-1''
   \<and> type_info p_handlers = Some [''Org'', ''Svc'', ''Thing'']
   \<and> handlers p_handlers = Some hs1
   \<and> sorted_wrt (<) (map stage (calls (snd (upload p_handlers r_ok (Archive []) None None None True False w0))))
   \<and> (\<exists>c \<in> set (calls (snd (upload p_handlers r_ok (Archive []) None None None True False w0))). is_role_call c)
   \<and> \<not> (\<exists>c \<in> set (calls (snd (upload p_handlers r_ok (Archive []) None None (Some ''arn:given'') True False w0))).
           is_role_call c)"
proof -
  have a: "sdk_session r_ok None = Inr ''us-east-1''" by (simp add: r_ok_def)
  have b: "type_info p_handlers = Some [''Org'', ''Svc'', ''Thing'']" by (simp add: p_handlers_def p0_def)
  have c: "handlers p_handlers = Some hs1" by (simp add: p_handlers_def p0_def)
  have d: "calls w0 = []" by (simp add: w0_def)
  obtain xs where xs:
    "calls (snd (upload p_handlers r_ok (Archive []) None None None True False w0)) = calls w0 @ xs"
    "sorted_wrt (<) (map stage xs)"
    "\<forall>region. sdk_session r_ok None = Inr region \<and> type_info p_handlers \<noteq> None \<longrightarrow>
       ((\<exists>c \<in> set xs. is_role_call c) \<longleftrightarrow> True \<and> \<not> truthy_arg None \<and> handlers p_handlers \<noteq> None)"
    using upload_call_order [of p_handlers r_ok "Archive []" None None None True False w0] by blast
  obtain zs where zs:
    "calls (snd (upload p_handlers r_ok (Archive []) None None (Some ''arn:given'') True False w0)) = calls w0 @ zs"
    "\<forall>region. sdk_session r_ok None = Inr region \<and> type_info p_handlers \<noteq> None \<longrightarrow>
       ((\<exists>c \<in> set zs. is_role_call c) \<longleftrightarrow> True \<and> \<not> truthy_arg (Some ''arn:given'') \<and> handlers p_handlers \<noteq> None)"
    using upload_call_order [of p_handlers r_ok "Archive []" None None "Some ''arn:given''" True False w0] by blast
  have 1: "sorted_wrt (<) (map stage (calls (snd (upload p_handlers r_ok (Archive []) None None None True False w0))))"
    using xs(1,2) d by simp
  have 2: "\<exists>c \<in> set (calls (snd (upload p_handlers r_ok (Archive []) None None None True False w0))). is_role_call c"
    using xs(1,3) a b c d by (simp add: truthy_arg_def)
  have 3: "\<not> (\<exists>c \<in> set (calls (snd (upload p_handlers r_ok (Archive []) None None (Some ''arn:given'') True False w0))).
           is_role_call c)"
    using zs a b c d by (simp add: truthy_arg_def)
  from a b c 1 2 3 show ?thesis by blast
qed

text \<open>
  Claim C3 as stated fails: in a submission that provisions the role, the call that creates
  the role comes before the upload of the archive.
\<close>

theorem upload_order_counterexample:
  "calls (snd (upload p_handlers r_ok (Archive []) None None None True False w0)) =
     [CreateSdkSession None,
      CreateOrUpdateRole ''proj/resource-role.yaml'' ''org-svc-thing'',
      Upload ''org-svc-thing'' (Archive []),
      GetLogDeliveryRoleArn,
      RegisterType \<lparr>Type = ''RESOURCE'', TypeName = ''Org::Svc::Thing'',
                     SchemaHandlerPackage = ''s3://bucket/key'', ClientRequestToken = ''0000-0001'',
                     LogRoleArn = ''arn:aws:iam::1:role/log'', LogGroupName = ''org-svc-thing-logs'',
                     ExecutionRoleArn = Some ''arn:aws:iam::1:role/exec''\<rparr>,
      WaitTypeRegistrationComplete ''token-1'',
      DescribeTypeRegistration ''token-1'']"
  by (simp add: upload_def provision_role_def register_def wait_for_registration_def
      p_handlers_def p0_def r_ok_def w0_def hs1_def truthy_arg_def hypenated_name_def type_name_def
      lower_def lower_char_def path_join_def ROLE_TEMPLATE_FILENAME_def Let_def)

subsection \<open>Dry runs\<close>

lemma zip_not_json: "xs @ ''.zip'' \<noteq> ys @ ''.json''"
proof
  assume "xs @ ''.zip'' = ys @ ''.json''"
  then have "last (xs @ ''.zip'') = last (ys @ ''.json'')" by simp
  then show False by simp
qed

lemma zip_not_config: "xs @ ''.zip'' \<noteq> ys @ ''.rpdk-config''"
proof
  assume "xs @ ''.zip'' = ys @ ''.rpdk-config''"
  then have "last (xs @ ''.zip'') = last (ys @ ''.rpdk-config'')" by simp
  then show False by simp
qed

lemma zip_not_project_file:
  "name @ ''.zip'' \<noteq> path_join d (n @ ''.json'')"
  "name @ ''.zip'' \<noteq> path_join d SETTINGS_FILENAME"
  "name @ ''.zip'' \<noteq> path_join d OVERRIDES_FILENAME"
  using zip_not_json [of name "d @ ''/'' @ n"] zip_not_config [of name "d @ ''/''"]
    zip_not_json [of name "d @ ''/overrides''"]
  by (simp_all add: path_join_def SETTINGS_FILENAME_def OVERRIDES_FILENAME_def)

lemma write_archive_frame:
  "write_archive p pkg w = (res, entries, w') \<Longrightarrow> calls w' = calls w \<and> files w' = files w"
  by (auto simp: write_archive_def Let_def split: sum.splits option.splits)

lemma write_archive_ok:
  assumes "type_info p = Some ti"
    and "files w (path_join (root p) (lower (join ''-'' ti) @ ''.json'')) = Some sf"
    and "files w (path_join (root p) SETTINGS_FILENAME) = Some stf"
  shows "fst (write_archive p (Inr added) w) = Inr ()
     \<and> fst (snd (write_archive p (Inr added) w)) =
         [(''schema.json'', sf), (''.rpdk-config'', stf)]
         @ (case files w (path_join (root p) OVERRIDES_FILENAME) of None \<Rightarrow> [] | Some ov \<Rightarrow> [(''overrides.json'', ov)])
         @ added"
  using assms
  by (simp add: write_archive_def schema_path_def hypenated_name_def settings_path_def overrides_path_def
      SCHEMA_UPLOAD_FILENAME_def SETTINGS_FILENAME_def OVERRIDES_FILENAME_def Let_def
      split: option.splits)

text \<open>
  Claim C9. A dry run of \<open>submit\<close> makes no remote call, whatever happens; it changes no
  file but \<open><hypenated_name>.zip\<close>; and when the schema and settings files exist and the
  plugin packages without raising, it returns normally with the archive in that file.
  Without a type name it raises TypeError before touching anything.
\<close>

theorem submit_dry_run_is_local:
  "calls (snd (submit p pkg r True endpoint_url region_name role_arn use_role set_default w)) = calls w
   \<and> (\<forall>ti path. type_info p = Some ti \<and> path \<noteq> lower (join ''-'' ti) @ ''.zip'' \<longrightarrow>
         files (snd (submit p pkg r True endpoint_url region_name role_arn use_role set_default w)) path
           = files w path)
   \<and> (type_info p = None \<longrightarrow>
         submit p pkg r True endpoint_url region_name role_arn use_role set_default w = (Inl TypeError, w))
   \<and> (\<forall>ti sf stf added.
         type_info p = Some ti
         \<and> files w (path_join (root p) (lower (join ''-'' ti) @ ''.json'')) = Some sf
         \<and> files w (path_join (root p) ''.rpdk-config'') = Some stf
         \<and> pkg = Inr added \<longrightarrow>
         fst (submit p pkg r True endpoint_url region_name role_arn use_role set_default w) = Inr ()
         \<and> files (snd (submit p pkg r True endpoint_url region_name role_arn use_role set_default w))
             (lower (join ''-'' ti) @ ''.zip'') =
           Some (Archive ([(''schema.json'', sf), (''.rpdk-config'', stf)]
                          @ (case files w (path_join (root p) ''overrides.json'') of
                               None \<Rightarrow> []
                             | Some ov \<Rightarrow> [(''overrides.json'', ov)])
                          @ added)))"
proof (cases "type_info p")
  case None
  then show ?thesis by (simp add: submit_def hypenated_name_def)
next
  case (Some ti)
  let ?zip = "lower (join ''-'' ti) @ ''.zip''"
  let ?w1 = "w\<lparr>files := (files w)(?zip \<mapsto> Archive [])\<rparr>"
  obtain res entries w2 where wa: "write_archive p pkg ?w1 = (res, entries, w2)"
    by (cases "write_archive p pkg ?w1") auto
  have frame: "calls w2 = calls w" "files w2 = (files w)(?zip \<mapsto> Archive [])"
    using write_archive_frame [OF wa] by simp_all
  have sub: "submit p pkg r True endpoint_url region_name role_arn use_role set_default w =
      (case res of
         Inl e \<Rightarrow> (Inl e, w2\<lparr>files := (files w2)(?zip \<mapsto> Archive entries)\<rparr>)
       | Inr u \<Rightarrow> (Inr (), LOG ERROR ''Dry run complete: %s'' [S ?zip]
                              (w2\<lparr>files := (files w2)(?zip \<mapsto> Archive entries)\<rparr>)))"
    using Some wa by (simp add: submit_def hypenated_name_def Let_def)
  have 1: "calls (snd (submit p pkg r True endpoint_url region_name role_arn use_role set_default w)) = calls w"
    using frame by (simp add: sub split: sum.splits)
  have 2: "files (snd (submit p pkg r True endpoint_url region_name role_arn use_role set_default w)) path
           = files w path" if "path \<noteq> ?zip" for path
    using frame that by (simp add: sub split: sum.splits)
  have 3: "fst (submit p pkg r True endpoint_url region_name role_arn use_role set_default w) = Inr ()
         \<and> files (snd (submit p pkg r True endpoint_url region_name role_arn use_role set_default w)) ?zip =
           Some (Archive ([(''schema.json'', sf), (''.rpdk-config'', stf)]
                          @ (case files w (path_join (root p) ''overrides.json'') of
                               None \<Rightarrow> []
                             | Some ov \<Rightarrow> [(''overrides.json'', ov)])
                          @ added))"
    if h: "files w (path_join (root p) (lower (join ''-'' ti) @ ''.json'')) = Some sf"
          "files w (path_join (root p) ''.rpdk-config'') = Some stf" "pkg = Inr added"
    for sf stf added
  proof -
    have s1: "files ?w1 (path_join (root p) (lower (join ''-'' ti) @ ''.json'')) = Some sf"
      using h(1) zip_not_project_file(1) [of "lower (join ''-'' ti)" "root p" "lower (join ''-'' ti)"]
      by (auto simp: fun_upd_def)
    have s2: "files ?w1 (path_join (root p) SETTINGS_FILENAME) = Some stf"
      using h(2) zip_not_project_file(2) [of "lower (join ''-'' ti)" "root p"]
      by (auto simp: SETTINGS_FILENAME_def fun_upd_def)
    have s3: "files ?w1 (path_join (root p) OVERRIDES_FILENAME) = files w (path_join (root p) ''overrides.json'')"
      using zip_not_project_file(3) [of "lower (join ''-'' ti)" "root p"]
      by (auto simp: OVERRIDES_FILENAME_def fun_upd_def)
    from write_archive_ok [OF Some s1 s2, of added] wa h(3) s3
    have "res = Inr ()" and "entries = [(''schema.json'', sf), (''.rpdk-config'', stf)]
                          @ (case files w (path_join (root p) ''overrides.json'') of
                               None \<Rightarrow> []
                             | Some ov \<Rightarrow> [(''overrides.json'', ov)])
                          @ added"
      by simp_all
    then show ?thesis by (simp add: sub)
  qed
  from Some 1 2 3 show ?thesis by simp
qed

theorem submit_dry_run_is_local_witness:
  "type_info p0 = Some [''Org'', ''Svc'', ''Thing'']
   \<and> files w_project ''proj/org-svc-thing.json'' = Some (Text ''{}'')
   \<and> files w_project ''proj/.rpdk-config'' = Some (Text ''settings'')
   \<and> calls (snd (submit p0 (Inr [(''handler.bin'', Text ''code'')]) r_ok True None None None True False w_project)) = []
   \<and> fst (submit p0 (Inr [(''handler.bin'', Text ''code'')]) r_ok True None None None True False w_project) = Inr ()
   \<and> files (snd (submit p0 (Inr [(''handler.bin'', Text ''code'')]) r_ok True None None None True False w_project))
         ''org-svc-thing.zip'' =
       Some (Archive [(''schema.json'', Text ''{}''), (''.rpdk-config'', Text ''settings''),
                      (''handler.bin'', Text ''code'')])
   \<and> files (snd (submit p0 (Inr [(''handler.bin'', Text ''code'')]) r_ok True None None None True False w_project))
         ''proj/org-svc-thing.json'' = Some (Text ''{}'')
   \<and> type_info (p0\<lparr>type_info := None\<rparr>) = None
   \<and> fst (submit (p0\<lparr>type_info := None\<rparr>) (Inr []) r_ok True None None None True False w_project)
       = Inl TypeError"
proof -
  have ti: "type_info p0 = Some [''Org'', ''Svc'', ''Thing'']" by (simp add: p0_def)
  have no_ti: "type_info (p0\<lparr>type_info := None\<rparr>) = None" by simp
  from submit_dry_run_is_local
         [of "p0\<lparr>type_info := None\<rparr>" "Inr []" r_ok None None None True False w_project] no_ti
  have 4: "fst (submit (p0\<lparr>type_info := None\<rparr>) (Inr []) r_ok True None None None True False w_project)
       = Inl TypeError"
    by simp
  have nm: "lower (join ''-'' [''Org'', ''Svc'', ''Thing'']) = ''org-svc-thing''"
    by (simp add: lower_def lower_char_def)
  have f1: "files w_project (path_join (root p0) (lower (join ''-'' [''Org'', ''Svc'', ''Thing'']) @ ''.json''))
              = Some (Text ''{}'')"
    by (simp add: lower_def lower_char_def w_project_def w0_def p0_def path_join_def)
  have f2: "files w_project (path_join (root p0) ''.rpdk-config'') = Some (Text ''settings'')"
    by (simp add: w_project_def w0_def p0_def path_join_def)
  have f3: "files w_project (path_join (root p0) ''overrides.json'') = None"
    by (simp add: w_project_def w0_def p0_def path_join_def)
  have ne: "''proj/org-svc-thing.json'' \<noteq> lower (join ''-'' [''Org'', ''Svc'', ''Thing'']) @ ''.zip''"
    by (simp add: lower_def lower_char_def)
  note t = submit_dry_run_is_local
             [of p0 "Inr [(''handler.bin'', Text ''code'')]" r_ok None None None True False w_project]
  from t have 1: "calls (snd (submit p0 (Inr [(''handler.bin'', Text ''code'')]) r_ok True None None None True False w_project)) = []"
    by (simp add: w_project_def w0_def)
  from t ti f1 f2 have
    "fst (submit p0 (Inr [(''handler.bin'', Text ''code'')]) r_ok True None None None True False w_project) = Inr ()
     \<and> files (snd (submit p0 (Inr [(''handler.bin'', Text ''code'')]) r_ok True None None None True False w_project))
          (lower (join ''-'' [''Org'', ''Svc'', ''Thing'']) @ ''.zip'') =
        Some (Archive ([(''schema.json'', Text ''{}''), (''.rpdk-config'', Text ''settings'')]
                       @ (case files w_project (path_join (root p0) ''overrides.json'') of
                            None \<Rightarrow> []
                          | Some ov \<Rightarrow> [(''overrides.json'', ov)])
                       @ [(''handler.bin'', Text ''code'')]))"
    by blast
  then have 2: "fst (submit p0 (Inr [(''handler.bin'', Text ''code'')]) r_ok True None None None True False w_project) = Inr ()
     \<and> files (snd (submit p0 (Inr [(''handler.bin'', Text ''code'')]) r_ok True None None None True False w_project))
          ''org-svc-thing.zip'' =
        Some (Archive [(''schema.json'', Text ''{}''), (''.rpdk-config'', Text ''settings''),
                       (''handler.bin'', Text ''code'')])"
    by (simp add: f3 lower_def lower_char_def)
  from t ti ne have
    "files (snd (submit p0 (Inr [(''handler.bin'', Text ''code'')]) r_ok True None None None True False w_project))
         ''proj/org-svc-thing.json'' = files w_project ''proj/org-svc-thing.json''"
    by blast
  then have 3: "files (snd (submit p0 (Inr [(''handler.bin'', Text ''code'')]) r_ok True None None None True False w_project))
         ''proj/org-svc-thing.json'' = Some (Text ''{}'')"
    by (simp add: w_project_def w0_def)
  have g1: "files w_project ''proj/org-svc-thing.json'' = Some (Text ''{}'')"
    by (simp add: w_project_def w0_def)
  have g2: "files w_project ''proj/.rpdk-config'' = Some (Text ''settings'')"
    by (simp add: w_project_def w0_def)
  from ti g1 g2 1 2 3 no_ti 4 show ?thesis by blast
qed

subsection \<open>The walker\<close>

lemma store_LOG [simp]: "store (LOG lv fmt args w) = store w"
  by (simp add: LOG_def)


lemma store_set_frame [simp]:
  "files (store_set a k v w) = files w"
  "logged (store_set a k v w) = logged w"
  "calls (store_set a k v w) = calls w"
  "length (store (store_set a k v w)) = length (store w)"
  by (simp_all add: store_set_def)





lemma leave_returns: "fst (leave a w) = Inr (JRef a)"
  by (simp add: leave_def split: option.splits)

lemma leave_frame [simp]:
  "files (snd (leave a w)) = files w"
  "logged (snd (leave a w)) = logged w"
  "length (store (snd (leave a w))) = length (store w)"
  by (simp_all add: leave_def split: option.splits)


lemma set_display_frame [simp]:
  "files (set_display a j y l w) = files w"
  "logged (set_display a j y l w) = logged w"
  "length (store (set_display a j y l w)) = length (store w)"
  by (simp_all add: set_display_def)







lemma leave_result:
  assumes "leave a w = (r, w')"
  shows "r = Inr (JRef a)" and "files w' = files w" and "logged w' = logged w"
    and "length (store w') = length (store w)"
  using assms leave_returns [of a w] leave_frame [of a w] by simp_all






















subsection \<open>The schema after the documentation is generated\<close>

text \<open>
  Claim C1 fails on the code. \<open>generate_docs\<close> copies the schema, but the walker resolves
  a \<open>$ref\<close> against \<open>self.schema\<close> itself and annotates the object it finds there. For
  the schema whose property \<open>a\<close> refers to the definition \<open>D\<close>, the dict of \<open>D\<close> in the
  original schema has gained the three display fields after one run. For the schema whose
  properties \<open>b\<close> and \<open>a\<close> share a definition with a member that is create-only under
  \<open>a\<close>, the side file \<open>b.md\<close> of the second run differs from that of the first run.
\<close>

theorem generate_docs_mutates_schema:
  "store w_ref ! 4 = [(''type'', JStr ''string'')]
   \<and> fst (generate_docs 5 p_ref w_ref) = Inr ()
   \<and> store (snd (generate_docs 5 p_ref w_ref)) ! 4 =
       [(''type'', JStr ''string''), (''jsontype'', JStr ''String''), (''yamltype'', JStr ''String''),
        (''longformtype'', JStr ''String'')]
   \<and> fst (generate_docs 8 p_shared w_shared) = Inr ()
   \<and> files (snd (generate_docs 8 p_shared w_shared)) ''proj/docs/b.md'' = Some (Text ''x'')
   \<and> fst (generate_docs 8 p_shared (snd (generate_docs 8 p_shared w_shared))) = Inr ()
   \<and> files (snd (generate_docs 8 p_shared (snd (generate_docs 8 p_shared w_shared)))) ''proj/docs/b.md''
       = Some (Text ''x (create-only)'')"
  by code_simp

end
